theory Spec2Isabelle
  imports Complex_Main "HOL-Library.Log_Nat"
begin

section \<open>JavaScript values\<close>

text \<open>
  The scripts compute with JavaScript numbers, which are binary doubles. A finite double
  is modelled by the rational it denotes (\<^typ>\<open>rat\<close>); the type \<open>jsnum\<close> adds the
  three non-finite values of the language. The arithmetic of \<open>jsnum\<close> rounds every
  result to the nearest double, a tie going to the even significand (\<open>toDouble\<close>: 53
  bits of significand, gradual underflow, overflow to an infinity). The sign of zero is
  not modelled. The S-curve distribution, the overrun projection and the scope analysis
  compute in \<open>jsnum\<close>. The counters of the fetch loops, the grouping by assignee, the
  daily progress and the velocity figures are computed on \<^typ>\<open>rat\<close>, without
  rounding: a quotient there stands for the double nearest to it.
\<close>

definition Math_round :: "rat \<Rightarrow> int" where
  \<comment> \<open>\<open>Math.round\<close>: the nearest integer, a tie going up.\<close>
  "Math_round x = \<lfloor>x + 1 / 2\<rfloor>"

datatype jsnum = Num rat | PosInf | NegInf | NaN

definition expo :: "rat \<Rightarrow> int" where
  \<comment> \<open>The binary exponent of a number other than 0: \<open>2 powi expo x \<le> \<bar>x\<bar> < 2 powi (expo x + 1)\<close>.\<close>
  "expo x =
     (let a = \<bar>x\<bar> in
      if 1 \<le> a then bitlen \<lfloor>a\<rfloor> - 1
      else (let k = bitlen \<lfloor>1 / a\<rfloor> - 1 in if a = 2 powi (- k) then - k else - k - 1))"

definition roundEven :: "rat \<Rightarrow> int" where
  \<comment> \<open>The nearest integer, a tie going to the even one.\<close>
  "roundEven z =
     (let f = \<lfloor>z\<rfloor>; r = z - of_int f
      in if r < 1 / 2 then f else if 1 / 2 < r then f + 1 else if even f then f else f + 1)"

definition toDouble :: "rat \<Rightarrow> jsnum" where
  \<comment> \<open>The double nearest to a rational: the spacing of the doubles around \<open>x\<close> is
      \<open>2 powi (e - 52)\<close>, with the exponent \<open>e\<close> not below that of the subnormal numbers.\<close>
  "toDouble x =
     (if x = 0 then Num 0
      else (let e = max (expo x) (- 1022);
                q = 2 powi (e - 52);
                y = of_int (roundEven (x / q)) * q
            in if 2 powi 1024 \<le> \<bar>y\<bar> then (if 0 < x then PosInf else NegInf) else Num y))"

fun jsSign :: "jsnum \<Rightarrow> int" where
  "jsSign (Num a) = (if a > 0 then 1 else if a < 0 then - 1 else 0)"
| "jsSign PosInf = 1"
| "jsSign NegInf = - 1"
| "jsSign NaN = 0"

definition jsInf :: "int \<Rightarrow> jsnum" where
  \<comment> \<open>The infinity of a given sign; sign 0 stands for an undefined result.\<close>
  "jsInf s = (if s > 0 then PosInf else if s < 0 then NegInf else NaN)"

fun jsNeg :: "jsnum \<Rightarrow> jsnum" where
  "jsNeg (Num a) = Num (- a)"
| "jsNeg PosInf = NegInf"
| "jsNeg NegInf = PosInf"
| "jsNeg NaN = NaN"

fun jsAdd :: "jsnum \<Rightarrow> jsnum \<Rightarrow> jsnum" where
  "jsAdd (Num a) (Num b) = toDouble (a + b)"
| "jsAdd NaN y = NaN"
| "jsAdd x NaN = NaN"
| "jsAdd PosInf NegInf = NaN"
| "jsAdd NegInf PosInf = NaN"
| "jsAdd PosInf y = PosInf"
| "jsAdd NegInf y = NegInf"
| "jsAdd (Num a) y = y"

definition jsSub :: "jsnum \<Rightarrow> jsnum \<Rightarrow> jsnum" where
  "jsSub x y = jsAdd x (jsNeg y)"

fun jsMul :: "jsnum \<Rightarrow> jsnum \<Rightarrow> jsnum" where
  "jsMul (Num a) (Num b) = toDouble (a * b)"
| "jsMul NaN y = NaN"
| "jsMul x NaN = NaN"
| "jsMul x y = jsInf (jsSign x * jsSign y)"

fun jsDiv :: "jsnum \<Rightarrow> jsnum \<Rightarrow> jsnum" where
  \<comment> \<open>\<open>0 / 0\<close> is \<open>NaN\<close>; any other finite number over 0 is an infinity of its sign.\<close>
  "jsDiv (Num a) (Num b) = (if b = 0 then jsInf (jsSign (Num a)) else toDouble (a / b))"
| "jsDiv NaN y = NaN"
| "jsDiv x NaN = NaN"
| "jsDiv (Num a) y = Num 0"
| "jsDiv x (Num b) = jsInf (jsSign x * (if b < 0 then - 1 else 1))"
| "jsDiv x y = NaN"

fun jsRound :: "jsnum \<Rightarrow> jsnum" where
  \<comment> \<open>\<open>Math.round\<close> of a double is an integer that is a double again.\<close>
  "jsRound (Num a) = Num (of_int (Math_round a))"
| "jsRound x = x"

fun jsAbs :: "jsnum \<Rightarrow> jsnum" where
  "jsAbs (Num a) = Num \<bar>a\<bar>"
| "jsAbs NaN = NaN"
| "jsAbs x = PosInf"

fun jsGt :: "jsnum \<Rightarrow> jsnum \<Rightarrow> bool" where
  \<comment> \<open>Every comparison with \<open>NaN\<close> is false.\<close>
  "jsGt (Num a) (Num b) = (a > b)"
| "jsGt NaN y = False"
| "jsGt x NaN = False"
| "jsGt PosInf y = (y \<noteq> PosInf)"
| "jsGt x NegInf = (x \<noteq> NegInf)"
| "jsGt x y = False"

definition jsSum :: "jsnum list \<Rightarrow> jsnum" where
  \<comment> \<open>\<open>xs.reduce((a, b) => a + b, 0)\<close>\<close>
  "jsSum xs = foldl jsAdd (Num 0) xs"

definition nonnegOrInf :: "jsnum \<Rightarrow> bool" where
  \<comment> \<open>A finite number that is not negative, or the positive infinity.\<close>
  "nonnegOrInf x = (case x of Num a \<Rightarrow> 0 \<le> a | PosInf \<Rightarrow> True | NegInf \<Rightarrow> False | NaN \<Rightarrow> False)"

section \<open>Strings and dates\<close>

text \<open>
  Strings are lists of bytes; \<open>toUpperCase\<close> and \<open>toLowerCase\<close> are modelled on the
  ASCII letters, which is what the status names compared by the scripts consist of.
  The \<open>Date\<close> constructor belongs to the language, not to the scripts: the functions
  that call it take it as the parameter \<open>parseDate\<close>, which yields the time value of a
  string, or \<open>None\<close> for an invalid date. A comparison with an invalid date is false.
\<close>

definition upperChar :: "char \<Rightarrow> char" where
  "upperChar c =
     (let n = (of_char c :: nat) in if 97 \<le> n \<and> n \<le> 122 then char_of (n - 32) else c)"

definition lowerChar :: "char \<Rightarrow> char" where
  "lowerChar c =
     (let n = (of_char c :: nat) in if 65 \<le> n \<and> n \<le> 90 then char_of (n + 32) else c)"

definition toUpperCase :: "string \<Rightarrow> string" where
  "toUpperCase s = map upperChar s"

definition toLowerCase :: "string \<Rightarrow> string" where
  "toLowerCase s = map lowerChar s"

definition datePart :: "string \<Rightarrow> string" where
  \<comment> \<open>\<open>s.split('T')[0]\<close>\<close>
  "datePart s = takeWhile (\<lambda>c. c \<noteq> CHR ''T'') s"

fun startsWith :: "string \<Rightarrow> string \<Rightarrow> bool" where
  "startsWith s [] = True"
| "startsWith [] (c # cs) = False"
| "startsWith (d # ds) (c # cs) = (d = c \<and> startsWith ds cs)"

fun strIncludes :: "string \<Rightarrow> string \<Rightarrow> bool" where
  \<comment> \<open>\<open>s.includes(sub)\<close>\<close>
  "strIncludes [] sub = (sub = [])"
| "strIncludes (d # ds) sub = (startsWith (d # ds) sub \<or> strIncludes ds sub)"

fun strLe :: "string \<Rightarrow> string \<Rightarrow> bool" where
  \<comment> \<open>\<open>a <= b\<close> on strings: the order of the code units, a prefix first.\<close>
  "strLe [] b = True"
| "strLe (c # cs) [] = False"
| "strLe (c # cs) (d # ds) =
     ((of_char c :: nat) < of_char d \<or> (c = d \<and> strLe cs ds))"

definition dateLe :: "int option \<Rightarrow> int option \<Rightarrow> bool" where
  "dateLe a b = (case a of None \<Rightarrow> False | Some x \<Rightarrow> (case b of None \<Rightarrow> False | Some y \<Rightarrow> x \<le> y))"

definition numOr :: "rat option \<Rightarrow> rat \<Rightarrow> rat" where
  \<comment> \<open>\<open>v || d\<close> for a number or \<open>null\<close>: \<open>null\<close> and 0 are falsy.\<close>
  "numOr v d = (case v of None \<Rightarrow> d | Some x \<Rightarrow> if x = 0 then d else x)"

definition strOr :: "string option \<Rightarrow> string \<Rightarrow> string" where
  \<comment> \<open>\<open>s || d\<close> for a string or \<open>undefined\<close>: the empty string is falsy.\<close>
  "strOr s d = (case s of None \<Rightarrow> d | Some x \<Rightarrow> if x = [] then d else x)"

function showNat :: "nat \<Rightarrow> string" where
  "showNat n =
     (if n < 10 then [char_of (48 + n)] else showNat (n div 10) @ [char_of (48 + n mod 10)])"
  by pat_completeness auto
termination
  by (relation "measure (\<lambda>n. n)") auto

definition toFixed1 :: "jsnum \<Rightarrow> string" where
  \<comment> \<open>\<open>x.toFixed(1)\<close> for magnitudes below \<open>10^21\<close>: the sign, then the nearest
      multiple of a tenth, of two equally near ones the larger.\<close>
  "toFixed1 x =
     (case x of
        NaN \<Rightarrow> ''NaN''
      | PosInf \<Rightarrow> ''Infinity''
      | NegInf \<Rightarrow> ''-Infinity''
      | Num a \<Rightarrow>
          (let n = nat (Math_round (\<bar>a\<bar> * 10))
           in (if a < 0 then ''-'' else '''') @ showNat (n div 10) @ ''.'' @ showNat (n mod 10)))"

section \<open>Status history resolver\<close>

record changeItem =
  item_field :: string
  item_fieldId :: "string option"
  item_fromString :: "string option"
  item_toString :: "string option"
  item_to :: "string option"

record history =
  h_created :: string
  h_author :: "string option"
  h_items :: "changeItem list"

text \<open>A changelog is \<open>None\<close> when the issue has no \<open>changelog\<close> or no \<open>histories\<close>.\<close>

type_synonym changelog = "history list option"

definition statusItemMatches :: "string list \<Rightarrow> changeItem \<Rightarrow> bool" where
  \<comment> \<open>get-jira-completed-points.js, lines 121 to 123.\<close>
  "statusItemMatches targetStatuses item =
     (item_field item = ''status''
      \<and> (case item_toString item of
            None \<Rightarrow> False
          | Some s \<Rightarrow> s \<noteq> [] \<and> list_ex (\<lambda>status. toUpperCase s = toUpperCase status) targetStatuses))"

definition inDateRange :: "(string \<Rightarrow> int option) \<Rightarrow> string \<Rightarrow> string \<Rightarrow> history \<Rightarrow> bool" where
  \<comment> \<open>\<open>changeDate >= start && changeDate <= end\<close>\<close>
  "inDateRange parseDate startDate endDate h =
     (let changeDate = parseDate (datePart (h_created h))
      in dateLe (parseDate startDate) changeDate \<and> dateLe changeDate (parseDate endDate))"

definition getStatusChangeDate ::
  "(string \<Rightarrow> int option) \<Rightarrow> changelog \<Rightarrow> string list \<Rightarrow> string \<Rightarrow> string \<Rightarrow> string option" where
  \<comment> \<open>The loop runs over the histories from the first on and returns at the first one in
      the range that has a matching item.\<close>
  "getStatusChangeDate parseDate changelog targetStatuses startDate endDate =
     (case changelog of
        None \<Rightarrow> None
      | Some histories \<Rightarrow>
          (case List.find (\<lambda>h. inDateRange parseDate startDate endDate h
                               \<and> list_ex (statusItemMatches targetStatuses) (h_items h)) histories of
             None \<Rightarrow> None
           | Some h \<Rightarrow> Some (datePart (h_created h))))"

definition completedStatuses :: "string list" where
  "completedStatuses = [''READY FOR RELEASE'', ''CLOSED'', ''DONE'', ''COMPLETED'']"

definition completionItemMatches :: "changeItem \<Rightarrow> bool" where
  \<comment> \<open>generate-issues-currently-in-qa.js, lines 432 and 433.\<close>
  "completionItemMatches item =
     (item_field item = ''status''
      \<and> list_ex (\<lambda>s. Some s = map_option toUpperCase (item_toString item) \<or> Some s = item_to item)
           completedStatuses)"

record sprintIssue =
  si_key :: string
  si_summary :: string
  si_issuetype :: string
  si_status :: string
  si_storyPoints :: "rat option"
  si_updated :: "string option"
  si_changelog :: changelog

definition getCompletionDate :: "sprintIssue \<Rightarrow> string option" where
  \<comment> \<open>The loop runs over the histories from the last one down; without a match, an issue
      that is in a completed status gets its \<open>updated\<close> date.\<close>
  "getCompletionDate issue =
     (case si_changelog issue of
        None \<Rightarrow> None
      | Some histories \<Rightarrow>
          (case List.find (\<lambda>h. list_ex completionItemMatches (h_items h)) (rev histories) of
             Some h \<Rightarrow> Some (datePart (h_created h))
           | None \<Rightarrow>
               (if List.member completedStatuses (toUpperCase (si_status issue))
                then (case si_updated issue of
                        None \<Rightarrow> None
                      | Some u \<Rightarrow> if datePart u = [] then None else Some (datePart u))
                else None)))"

definition sprintItemMatches :: "string \<Rightarrow> string \<Rightarrow> changeItem \<Rightarrow> bool" where
  "sprintItemMatches sprintFieldId sprintName item =
     ((item_field item = ''Sprint'' \<or> item_fieldId item = Some sprintFieldId)
      \<and> strIncludes (strOr (item_toString item) '''') sprintName)"

definition analyzeSprintAddition :: "changelog \<Rightarrow> string \<Rightarrow> string \<Rightarrow> string \<Rightarrow> string" where
  "analyzeSprintAddition changelog sprintFieldId sprintName createdDate =
     (case changelog of
        None \<Rightarrow> createdDate
      | Some histories \<Rightarrow>
          (case List.find (\<lambda>h. list_ex (sprintItemMatches sprintFieldId sprintName) (h_items h))
                  histories of
             Some h \<Rightarrow> h_created h
           | None \<Rightarrow> createdDate))"

definition digitsValue :: "string \<Rightarrow> int" where
  \<comment> \<open>The digits of a string read as one decimal number: on timestamps of one fixed
      zero-padded layout it orders them by time. It instantiates \<open>parseDate\<close> in examples.\<close>
  "digitsValue s =
     foldl (\<lambda>acc c. let n = (of_char c :: nat) in
                      if 48 \<le> n \<and> n \<le> 57 then 10 * acc + int (n - 48) else acc) 0 s"

text \<open>An example history: four status changes, the second and the fourth into a
  completed status.\<close>

definition exItem :: "string \<Rightarrow> string \<Rightarrow> changeItem" where
  "exItem a b = \<lparr> item_field = ''status'', item_fieldId = Some ''status'',
                  item_fromString = Some a, item_toString = Some b, item_to = None \<rparr>"

definition exHistories :: "history list" where
  "exHistories =
     [ \<lparr> h_created = ''2025-01-08T09:15:00'', h_author = None, h_items = [exItem ''To Do'' ''In Dev''] \<rparr>,
       \<lparr> h_created = ''2025-01-10T11:30:00'', h_author = None, h_items = [exItem ''In Dev'' ''Closed''] \<rparr>,
       \<lparr> h_created = ''2025-01-13T08:00:00'', h_author = None, h_items = [exItem ''Closed'' ''In QA''] \<rparr>,
       \<lparr> h_created = ''2025-01-14T16:45:00'', h_author = None, h_items = [exItem ''In QA'' ''CLOSED''] \<rparr> ]"

definition exIssue :: sprintIssue where
  "exIssue = \<lparr> si_key = ''VER10-1'', si_summary = ''Example'', si_issuetype = ''Story'',
               si_status = ''CLOSED'', si_storyPoints = Some 3, si_updated = None,
               si_changelog = Some exHistories \<rparr>"


text \<open>The same history with a further close after the end of January, and a history
  with two changes of the sprint field.\<close>

definition exHistoriesLate :: "history list" where
  "exHistoriesLate =
     exHistories @
     [ \<lparr> h_created = ''2025-02-03T10:00:00'', h_author = None, h_items = [exItem ''In QA'' ''Closed''] \<rparr> ]"

definition exSprintItem :: "string \<Rightarrow> string \<Rightarrow> changeItem" where
  "exSprintItem a b = \<lparr> item_field = ''Sprint'', item_fieldId = Some ''customfield_10020'',
                        item_fromString = Some a, item_toString = Some b, item_to = None \<rparr>"

definition exSprintHistories :: "history list" where
  "exSprintHistories =
     [ \<lparr> h_created = ''2025-01-02T08:30:00'', h_author = None, h_items = [exItem ''To Do'' ''In Dev''] \<rparr>,
       \<lparr> h_created = ''2025-01-03T10:00:00'', h_author = None,
         h_items = [exSprintItem '''' ''NH Sprint 30''] \<rparr>,
       \<lparr> h_created = ''2025-01-09T12:00:00'', h_author = None,
         h_items = [exSprintItem ''NH Sprint 30'' ''NH Sprint 30, NH Sprint 31''] \<rparr> ]"
section \<open>Issue details and point normalisation\<close>

text \<open>
  A detail request either throws, with a message, or returns the issue. The remote
  system is the parameter \<open>get\<close> of the fetch loops, from the issue key to
  \<open>Inl message\<close> or \<open>Inr issue\<close>; the search request is \<open>Inl message\<close> or the list of
  the keys found.
\<close>

record assigneeRef =
  a_displayName :: string
  a_accountId :: string
  a_emailAddress :: "string option"

record jiraFields =
  f_summary :: string
  f_statusName :: "string option"
  f_issuetypeName :: "string option"
  f_storyPoints :: "rat option"
  f_assignee :: "assigneeRef option"

record jiraIssue =
  i_key :: string
  i_fields :: jiraFields
  i_changelog :: changelog

subsection \<open>generate-dev-review-by-assignee.js\<close>

record devIssue =
  d_key :: string
  d_summary :: string
  d_issueType :: string
  d_status :: string
  d_assignee :: string
  d_assigneeEmail :: "string option"
  d_assigneeAccountId :: "string option"
  d_storyPoints :: rat
  d_defaulted :: bool

definition devReviewIssue :: "jiraIssue \<Rightarrow> devIssue" where
  \<comment> \<open>Lines 102 to 130: the record pushed for one fetched issue.\<close>
  "devReviewIssue issue =
     (let flds = i_fields issue;
          issueType = strOr (f_issuetypeName flds) ''Unknown'';
          status = strOr (f_statusName flds) ''Unknown'';
          assignee = strOr (map_option a_displayName (f_assignee flds)) ''Unassigned'';
          storyPoints = numOr (f_storyPoints flds) 0;
          defaulted = ((issueType = ''Story'' \<or> issueType = ''Bug'') \<and> storyPoints = 0)
      in \<lparr> d_key = i_key issue, d_summary = f_summary flds, d_issueType = issueType,
           d_status = status, d_assignee = assignee,
           d_assigneeEmail = (case f_assignee flds of None \<Rightarrow> None
                               | Some a \<Rightarrow> (case a_emailAddress a of None \<Rightarrow> None
                                           | Some m \<Rightarrow> if m = [] then None else Some m)),
           d_assigneeAccountId = (case f_assignee flds of None \<Rightarrow> None
                                   | Some a \<Rightarrow> if a_accountId a = [] then None else Some (a_accountId a)),
           d_storyPoints = (if defaulted then 2 else storyPoints),
           d_defaulted = defaulted \<rparr>)"

definition fetchDevReviewIssues :: "(string \<Rightarrow> string + jiraIssue) \<Rightarrow> string list \<Rightarrow> devIssue list" where
  \<comment> \<open>The loop of step 2: an issue whose detail request throws is skipped.\<close>
  "fetchDevReviewIssues get issueKeys =
     foldl (\<lambda>issues issueKey.
              case get issueKey of
                Inl message \<Rightarrow> issues
              | Inr issue \<Rightarrow> issues @ [devReviewIssue issue]) [] issueKeys"

subsection \<open>The sprint allocation script\<close>

definition allocationPoints :: "jiraFields \<Rightarrow> rat option" where
  \<comment> \<open>Lines 98 to 110: \<open>None\<close> for an issue of a type that is not counted.\<close>
  "allocationPoints flds =
     (let storyPoints = numOr (f_storyPoints flds) 0;
          issueType = strOr (f_issuetypeName flds) ''Unknown''
      in if issueType \<noteq> ''Epic'' \<and> issueType \<noteq> ''Story'' \<and> issueType \<noteq> ''Bug'' then None
         else if (issueType = ''Story'' \<or> issueType = ''Bug'') \<and> storyPoints = 0 then Some 2
         else Some storyPoints)"

subsection \<open>get-jira-completed-points.js\<close>

definition completedPointsOf :: "rat option \<Rightarrow> rat \<times> bool" where
  \<comment> \<open>Lines 204 to 212: the points counted and the flag \<open>defaultPointsAssigned\<close>. The
      type of the issue is not consulted; the query asks for stories and bugs only.\<close>
  "completedPointsOf storyPoints =
     (case storyPoints of
        None \<Rightarrow> (2, True)
      | Some v \<Rightarrow> if v = 0 then (2, True) else (v, False))"




definition COMPLETED_STATUSES :: "string list" where
  "COMPLETED_STATUSES = [''READY FOR RELEASE'', ''CLOSED'']"






definition fetched :: "(string \<Rightarrow> string + 'a) \<Rightarrow> string list \<Rightarrow> 'a list" where
  \<comment> \<open>The details that were fetched, in the order of the keys.\<close>
  "fetched get issueKeys =
     List.map_filter (\<lambda>k. case get k of Inl message \<Rightarrow> None | Inr issue \<Rightarrow> Some issue) issueKeys"

definition failedKeys :: "(string \<Rightarrow> string + 'a) \<Rightarrow> string list \<Rightarrow> string list" where
  "failedKeys get issueKeys = filter (\<lambda>k. case get k of Inl message \<Rightarrow> True | Inr issue \<Rightarrow> False) issueKeys"


text \<open>The end-to-end scenario of the specification: three issues found, the third
  detail request throws.\<close>

definition exFields :: "string \<Rightarrow> string \<Rightarrow> rat option \<Rightarrow> jiraFields" where
  "exFields ty st sp = \<lparr> f_summary = ''Example'', f_statusName = Some st,
                         f_issuetypeName = Some ty, f_storyPoints = sp, f_assignee = None \<rparr>"




definition exIssueOf :: "jiraFields \<Rightarrow> jiraIssue" where
  "exIssueOf flds = \<lparr> i_key = ''VER10-9'', i_fields = flds, i_changelog = None \<rparr>"

section \<open>Aggregation\<close>

text \<open>
  An object used as a dictionary is an association list in the order in which the keys
  were first set. \<open>Object.values\<close> enumerates the keys that are array indices first, in
  ascending numeric order, then the other keys in insertion order. Keys that name a
  property of \<open>Object.prototype\<close> are not modelled. \<open>Array.prototype.sort\<close> is stable,
  and the comparators \<open>(a, b) => b.p - a.p\<close> of the scripts order finite numbers
  consistently: the sort is the stable sort by descending \<open>p\<close>.
\<close>

fun objSet :: "string \<Rightarrow> 'v \<Rightarrow> (string \<times> 'v) list \<Rightarrow> (string \<times> 'v) list" where
  "objSet k v [] = [(k, v)]"
| "objSet k v (p # ps) = (if fst p = k then (k, v) # ps else p # objSet k v ps)"

definition isDigit :: "char \<Rightarrow> bool" where
  "isDigit c = (let n = (of_char c :: nat) in 48 \<le> n \<and> n \<le> 57)"

definition arrayIndex :: "string \<Rightarrow> nat option" where
  \<comment> \<open>A canonical numeric string below \<open>2^32 - 1\<close>.\<close>
  "arrayIndex k =
     (if k \<noteq> [] \<and> list_all isDigit k \<and> (k = ''0'' \<or> take 1 k \<noteq> ''0'')
         \<and> digitsValue k < 4294967295
      then Some (nat (digitsValue k)) else None)"

definition indexOrder :: "string \<times> 'v \<Rightarrow> nat" where
  "indexOrder p = (case arrayIndex (fst p) of Some n \<Rightarrow> n | None \<Rightarrow> 0)"

definition objectValues :: "(string \<times> 'v) list \<Rightarrow> 'v list" where
  "objectValues m =
     map snd (sort_key indexOrder (filter (\<lambda>p. arrayIndex (fst p) \<noteq> None) m))
     @ map snd (filter (\<lambda>p. arrayIndex (fst p) = None) m)"

definition sortDescBy :: "('a \<Rightarrow> rat) \<Rightarrow> 'a list \<Rightarrow> 'a list" where
  \<comment> \<open>\<open>xs.sort((a, b) => b.p - a.p)\<close>\<close>
  "sortDescBy p xs = sort_key (\<lambda>x. - p x) xs"

subsection \<open>\<open>groupByAssignee\<close> (generate-dev-review-by-assignee.js)\<close>

record bucket =
  b_count :: nat
  b_points :: rat
  b_issues :: "devIssue list"

record assigneeGroup =
  g_name :: string
  g_email :: "string option"
  g_accountId :: "string option"
  g_issues :: "devIssue list"
  g_totalPoints :: rat
  g_inDev :: bucket
  g_inReview :: bucket

definition newGroup :: "devIssue \<Rightarrow> assigneeGroup" where
  "newGroup issue =
     \<lparr> g_name = d_assignee issue, g_email = d_assigneeEmail issue,
       g_accountId = d_assigneeAccountId issue, g_issues = [], g_totalPoints = 0,
       g_inDev = \<lparr> b_count = 0, b_points = 0, b_issues = [] \<rparr>,
       g_inReview = \<lparr> b_count = 0, b_points = 0, b_issues = [] \<rparr> \<rparr>"

definition addToBucket :: "bucket \<Rightarrow> devIssue \<Rightarrow> bucket" where
  "addToBucket b issue =
     b\<lparr> b_count := b_count b + 1, b_points := b_points b + d_storyPoints issue,
        b_issues := b_issues b @ [issue] \<rparr>"

definition groupStep :: "(string \<times> assigneeGroup) list \<Rightarrow> devIssue \<Rightarrow> (string \<times> assigneeGroup) list" where
  "groupStep m issue =
     (let assignee = d_assignee issue;
          g0 = (case map_of m assignee of Some g \<Rightarrow> g | None \<Rightarrow> newGroup issue);
          g1 = g0\<lparr> g_issues := g_issues g0 @ [issue],
                   g_totalPoints := g_totalPoints g0 + d_storyPoints issue \<rparr>;
          statusLower = toLowerCase (d_status issue);
          g2 = (if statusLower = ''in dev''
                then g1\<lparr> g_inDev := addToBucket (g_inDev g1) issue \<rparr>
                else if statusLower = ''in review'' \<or> statusLower = ''ready for review''
                then g1\<lparr> g_inReview := addToBucket (g_inReview g1) issue \<rparr>
                else g1)
      in objSet assignee g2 m)"

definition groupByAssignee :: "devIssue list \<Rightarrow> assigneeGroup list" where
  "groupByAssignee issues = sortDescBy g_totalPoints (objectValues (foldl groupStep [] issues))"

subsection \<open>\<open>fetchSprintAllocation\<close> and the report rows of the allocation script\<close>

record assigneeStats =
  as_name :: string
  as_accountId :: string
  as_totalIssues :: nat
  as_totalPoints :: rat
  as_completedIssues :: nat
  as_completedPoints :: rat

text \<open>A row of the result is the statistics spread into a new object together with
  the percentage.\<close>

record assigneeRow =
  ar_stats :: assigneeStats
  ar_percentComplete :: int

definition ALLOCATION_COMPLETED :: "string list" where
  "ALLOCATION_COMPLETED = [''Ready for release'', ''CLOSED'', ''Closed'', ''Done'']"

definition percentOf :: "rat \<Rightarrow> rat \<Rightarrow> int" where
  \<comment> \<open>\<open>total > 0 ? Math.round((part / total) * 100) : 0\<close>\<close>
  "percentOf part whole = (if whole > 0 then Math_round ((part / whole) * 100) else 0)"

definition allocationStep ::
  "(string \<Rightarrow> string + jiraFields) \<Rightarrow> (string \<times> assigneeStats) list \<Rightarrow> string
   \<Rightarrow> (string \<times> assigneeStats) list" where
  \<comment> \<open>One round of the loop of lines 83 to 139; a failing request only prints a warning.\<close>
  "allocationStep get m issueKey =
     (case get issueKey of
        Inl message \<Rightarrow> m
      | Inr flds \<Rightarrow>
          (case allocationPoints flds of
             None \<Rightarrow> m
           | Some storyPoints \<Rightarrow>
               (let assigneeName = (case f_assignee flds of Some a \<Rightarrow> a_displayName a
                                     | None \<Rightarrow> ''Unassigned'');
                    assigneeAccountId = (case f_assignee flds of Some a \<Rightarrow> a_accountId a
                                          | None \<Rightarrow> ''unassigned'');
                    status = strOr (f_statusName flds) ''Unknown'';
                    isCompleted = List.member ALLOCATION_COMPLETED status;
                    a0 = (case map_of m assigneeAccountId of
                            Some a \<Rightarrow> a
                          | None \<Rightarrow> \<lparr> as_name = assigneeName, as_accountId = assigneeAccountId,
                                      as_totalIssues = 0, as_totalPoints = 0,
                                      as_completedIssues = 0, as_completedPoints = 0 \<rparr>);
                    a1 = a0\<lparr> as_totalIssues := as_totalIssues a0 + 1,
                             as_totalPoints := as_totalPoints a0 + storyPoints \<rparr>;
                    a2 = (if isCompleted
                          then a1\<lparr> as_completedIssues := as_completedIssues a1 + 1,
                                    as_completedPoints := as_completedPoints a1 + storyPoints \<rparr>
                          else a1)
                in objSet assigneeAccountId a2 m)))"

definition allocationRow :: "assigneeStats \<Rightarrow> assigneeRow" where
  "allocationRow a =
     \<lparr> ar_stats = a, ar_percentComplete = percentOf (as_completedPoints a) (as_totalPoints a) \<rparr>"

definition fetchSprintAllocation ::
  "(string + string list) \<Rightarrow> (string \<Rightarrow> string + jiraFields) \<Rightarrow> assigneeRow list" where
  \<comment> \<open>A failing search is caught and gives the empty list.\<close>
  "fetchSprintAllocation search get =
     (case search of
        Inl message \<Rightarrow> []
      | Inr issueKeys \<Rightarrow>
          sortDescBy (as_totalPoints \<circ> ar_stats)
            (map allocationRow (objectValues (foldl (allocationStep get) [] issueKeys))))"

definition SPRINTS :: "string list" where
  "SPRINTS = [''NH Sprint 28'', ''NH Sprint 29'', ''NH Sprint 30'', ''NH Sprint 31'']"

record sprintStat =
  ss_totalIssues :: nat
  ss_totalPoints :: rat
  ss_completedIssues :: nat
  ss_completedPoints :: rat
  ss_percentComplete :: int

record reportRow =
  rr_accountId :: string
  rr_name :: string
  rr_sprintStats :: "(string \<times> sprintStat) list"
  rr_totals :: sprintStat

definition setAdd :: "string list \<Rightarrow> string \<Rightarrow> string list" where
  \<comment> \<open>\<open>Set.add\<close>: a set enumerates its members in insertion order.\<close>
  "setAdd s x = (if List.member s x then s else s @ [x])"

definition allAssignees :: "(string \<Rightarrow> assigneeRow list) \<Rightarrow> string list" where
  \<comment> \<open>\<open>sprintData\<close> is the function from the sprint names to the allocations.\<close>
  "allAssignees sprintData =
     foldl setAdd [] (concat (map (\<lambda>n. map (as_accountId \<circ> ar_stats) (sprintData n)) SPRINTS))"

definition reportStep ::
  "(string \<Rightarrow> assigneeRow list) \<Rightarrow> string \<Rightarrow> reportRow \<Rightarrow> string \<Rightarrow> reportRow" where
  \<comment> \<open>The body of \<open>SPRINTS.forEach\<close> of lines 200 to 227; the percentage of the totals is
      set when the row is returned.\<close>
  "reportStep sprintData accountId row sprintName =
     (case List.find (\<lambda>a. as_accountId (ar_stats a) = accountId) (sprintData sprintName) of
        Some assigneeData \<Rightarrow>
          (let a = ar_stats assigneeData; t = rr_totals row
           in row\<lparr> rr_name := (if rr_name row = [] then as_name a else rr_name row),
                   rr_sprintStats := rr_sprintStats row @
                     [(sprintName, \<lparr> ss_totalIssues = as_totalIssues a,
                                     ss_totalPoints = as_totalPoints a,
                                     ss_completedIssues = as_completedIssues a,
                                     ss_completedPoints = as_completedPoints a,
                                     ss_percentComplete = ar_percentComplete assigneeData \<rparr>)],
                   rr_totals := t\<lparr> ss_totalIssues := ss_totalIssues t + as_totalIssues a,
                                    ss_totalPoints := ss_totalPoints t + as_totalPoints a,
                                    ss_completedIssues := ss_completedIssues t + as_completedIssues a,
                                    ss_completedPoints := ss_completedPoints t + as_completedPoints a \<rparr> \<rparr>)
      | None \<Rightarrow>
          row\<lparr> rr_sprintStats := rr_sprintStats row @
                 [(sprintName, \<lparr> ss_totalIssues = 0, ss_totalPoints = 0, ss_completedIssues = 0,
                                 ss_completedPoints = 0, ss_percentComplete = 0 \<rparr>)] \<rparr>)"

definition reportRowOf :: "(string \<Rightarrow> assigneeRow list) \<Rightarrow> string \<Rightarrow> reportRow" where
  "reportRowOf sprintData accountId =
     (let row = foldl (reportStep sprintData accountId)
                  \<lparr> rr_accountId = accountId, rr_name = [], rr_sprintStats = [],
                    rr_totals = \<lparr> ss_totalIssues = 0, ss_totalPoints = 0, ss_completedIssues = 0,
                                  ss_completedPoints = 0, ss_percentComplete = 0 \<rparr> \<rparr> SPRINTS;
          t = rr_totals row
      in row\<lparr> rr_totals :=
               t\<lparr> ss_percentComplete := percentOf (ss_completedPoints t) (ss_totalPoints t) \<rparr> \<rparr>)"

definition reportData :: "(string \<Rightarrow> assigneeRow list) \<Rightarrow> reportRow list" where
  "reportData sprintData =
     sortDescBy (ss_totalPoints \<circ> rr_totals)
       (map (reportRowOf sprintData) (allAssignees sprintData))"

subsection \<open>\<open>calculateScopeChanges\<close> (the burndown and scope analysis)\<close>

record pointChange =
  pc_date :: string
  pc_from :: string
  pc_to :: string
  pc_author :: string

record scopeIssue =
  sc_key :: string
  sc_summary :: string
  sc_issueType :: string
  sc_status :: string
  sc_storyPoints :: jsnum
  sc_created :: string
  sc_addedToSprint :: string
  sc_storyPointHistory :: "pointChange list"

record pointIncrease =
  pi_issue :: string
  pi_summary :: string
  pi_date :: string
  pi_from :: rat
  pi_to :: rat
  pi_increase :: jsnum
  pi_author :: string

record scopeChanges =
  initialScope :: "scopeIssue list"
  initialPoints :: jsnum
  addedScope :: "scopeIssue list"
  addedPoints :: jsnum
  storyPointIncreases :: "pointIncrease list"
  increasedPoints :: jsnum
  totalCurrentPoints :: jsnum
  completedIssues :: "scopeIssue list"
  completedPoints :: jsnum
  remainingIssues :: "scopeIssue list"
  remainingPoints :: jsnum

definition pointsOf :: "scopeIssue list \<Rightarrow> jsnum" where
  \<comment> \<open>\<open>xs.reduce((sum, issue) => sum + issue.storyPoints, 0)\<close>\<close>
  "pointsOf xs = foldl (\<lambda>sum issue. jsAdd sum (sc_storyPoints issue)) (Num 0) xs"

definition increasesOf ::
  "(string \<Rightarrow> int option) \<Rightarrow> (string \<Rightarrow> rat option) \<Rightarrow> string \<Rightarrow> scopeIssue \<Rightarrow> pointIncrease list" where
  \<comment> \<open>\<open>parseFloat\<close> is a parameter as \<open>parseDate\<close> is, from the string to the finite
      number read; \<open>None\<close> stands for \<open>NaN\<close>.\<close>
  "increasesOf parseDate parseFloat sprintStartDate issue =
     concat (map (\<lambda>change.
        if dateLe (parseDate sprintStartDate) (parseDate (pc_date change))
        then (let fromPoints = numOr (parseFloat (pc_from change)) 0;
                  toPoints = numOr (parseFloat (pc_to change)) 0;
                  increase = jsSub (Num toPoints) (Num fromPoints)
              in if jsGt increase (Num 0)
                 then [\<lparr> pi_issue = sc_key issue, pi_summary = sc_summary issue,
                         pi_date = pc_date change, pi_from = fromPoints, pi_to = toPoints,
                         pi_increase = increase, pi_author = pc_author change \<rparr>]
                 else [])
        else []) (sc_storyPointHistory issue))"

definition isDone :: "scopeIssue \<Rightarrow> bool" where
  "isDone issue = (sc_status issue = ''READY FOR RELEASE'' \<or> sc_status issue = ''CLOSED'')"

definition calculateScopeChanges ::
  "(string \<Rightarrow> int option) \<Rightarrow> (string \<Rightarrow> rat option) \<Rightarrow> scopeIssue list \<Rightarrow> string \<Rightarrow> scopeChanges" where
  "calculateScopeChanges parseDate parseFloat issues sprintStartDate =
     (let sprintStart = parseDate sprintStartDate;
          initial = filter (\<lambda>issue. dateLe (parseDate (sc_addedToSprint issue)) sprintStart) issues;
          added = filter (\<lambda>issue. \<not> dateLe (parseDate (sc_addedToSprint issue)) sprintStart) issues;
          increases = concat (map (increasesOf parseDate parseFloat sprintStartDate) issues);
          increased = foldl (\<lambda>sum change. jsAdd sum (pi_increase change)) (Num 0) increases;
          completed = filter isDone issues;
          remaining = filter (\<lambda>issue. sc_status issue \<noteq> ''READY FOR RELEASE''
                                     \<and> sc_status issue \<noteq> ''CLOSED'') issues
      in \<lparr> initialScope = initial, initialPoints = pointsOf initial,
           addedScope = added, addedPoints = pointsOf added,
           storyPointIncreases = increases, increasedPoints = increased,
           totalCurrentPoints = jsAdd (jsAdd (pointsOf initial) (pointsOf added)) increased,
           completedIssues = completed, completedPoints = pointsOf completed,
           remainingIssues = remaining, remainingPoints = pointsOf remaining \<rparr>)"

section \<open>Daily progress (the sprint progress script)\<close>

record completedEntry =
  ce_key :: string
  ce_summary :: string
  ce_points :: rat
  ce_type :: string

record dayProgress =
  dp_date :: string
  dp_totalSprint :: rat
  dp_completedToday :: rat
  dp_cumulativeCompleted :: rat
  dp_remaining :: rat
  dp_percentComplete :: string
  dp_completedIssues :: "completedEntry list"

definition issuePoints :: "sprintIssue \<Rightarrow> rat" where
  \<comment> \<open>\<open>issue.fields[storyPointsField] || 2\<close>\<close>
  "issuePoints issue = numOr (si_storyPoints issue) 2"

definition completedOn :: "string \<Rightarrow> string \<Rightarrow> sprintIssue list \<Rightarrow> sprintIssue list" where
  \<comment> \<open>\<open>completionDate === date && completionDate >= sprintStartDate\<close>\<close>
  "completedOn sprintStartDate date issues =
     filter (\<lambda>issue. case getCompletionDate issue of
                       None \<Rightarrow> False
                     | Some d \<Rightarrow> d = date \<and> strLe sprintStartDate d) issues"

fun dailyLoop :: "sprintIssue list \<Rightarrow> string \<Rightarrow> rat \<Rightarrow> rat \<Rightarrow> string list \<Rightarrow> dayProgress list" where
  "dailyLoop issues sprintStartDate totalPoints cumulativePoints [] = []"
| "dailyLoop issues sprintStartDate totalPoints cumulativePoints (date # dates) =
     (let done = completedOn sprintStartDate date issues;
          pointsCompletedToday = foldl (\<lambda>s issue. s + issuePoints issue) 0 done;
          cumulative = cumulativePoints + pointsCompletedToday
      in \<lparr> dp_date = date, dp_totalSprint = totalPoints,
           dp_completedToday = pointsCompletedToday,
           dp_cumulativeCompleted = cumulative,
           dp_remaining = totalPoints - cumulative,
           dp_percentComplete =
             toFixed1 (jsMul (jsDiv (Num cumulative) (Num totalPoints)) (Num 100)),
           dp_completedIssues =
             map (\<lambda>issue. \<lparr> ce_key = si_key issue, ce_summary = si_summary issue,
                             ce_points = issuePoints issue, ce_type = si_issuetype issue \<rparr>) done \<rparr>
         # dailyLoop issues sprintStartDate totalPoints cumulative dates)"

definition calculateDailyProgress :: "sprintIssue list \<Rightarrow> string list \<Rightarrow> string \<Rightarrow> dayProgress list" where
  \<comment> \<open>\<open>dates\<close> is the result of \<open>getDateRange(sprintStartDate, endDate)\<close>, the calendar
      days from the sprint start to today; the calendar of \<open>Date\<close> is not modelled.\<close>
  "calculateDailyProgress issues dates sprintStartDate =
     dailyLoop issues sprintStartDate (foldl (\<lambda>s issue. s + issuePoints issue) 0 issues) 0 dates"

definition exDev :: "string \<Rightarrow> string \<Rightarrow> rat \<Rightarrow> devIssue" where
  "exDev k a p = \<lparr> d_key = k, d_summary = ''Example'', d_issueType = ''Story'',
                   d_status = ''In Dev'', d_assignee = a, d_assigneeEmail = None,
                   d_assigneeAccountId = None, d_storyPoints = p, d_defaulted = False \<rparr>"

text \<open>An example sprint for the scope analysis: one story of the initial scope, now at 5
  points, that was raised from 3 to 5 points after the sprint had started.\<close>

definition exScopeIssue :: scopeIssue where
  "exScopeIssue =
     \<lparr> sc_key = ''VER10-7'', sc_summary = ''Example'', sc_issueType = ''Story'',
       sc_status = ''In Dev'', sc_storyPoints = Num 5, sc_created = ''2025-01-02'',
       sc_addedToSprint = ''2025-01-03'',
       sc_storyPointHistory =
         [\<lparr> pc_date = ''2025-01-08'', pc_from = ''3'', pc_to = ''5'', pc_author = ''Amy'' \<rparr>] \<rparr>"

definition exScope :: scopeChanges where
  "exScope =
     calculateScopeChanges (\<lambda>s. Some (digitsValue s)) (\<lambda>s. Some (of_int (digitsValue s)))
       [exScopeIssue] ''2025-01-06''"

text \<open>Three issues with fractional points, the third added after the sprint start, the
  first closed.\<close>

definition exFraction :: "string \<Rightarrow> rat \<Rightarrow> string \<Rightarrow> string \<Rightarrow> scopeIssue" where
  "exFraction k p added st =
     \<lparr> sc_key = k, sc_summary = ''Example'', sc_issueType = ''Story'', sc_status = st,
       sc_storyPoints = toDouble p, sc_created = ''2025-01-02'', sc_addedToSprint = added,
       sc_storyPointHistory = [] \<rparr>"

definition exFractions :: scopeChanges where
  "exFractions =
     calculateScopeChanges (\<lambda>s. Some (digitsValue s)) (\<lambda>s. Some (of_int (digitsValue s)))
       [exFraction ''VER10-1'' (1 / 10) ''2025-01-03'' ''CLOSED'',
        exFraction ''VER10-2'' (2 / 10) ''2025-01-03'' ''In Dev'',
        exFraction ''VER10-3'' (3 / 10) ''2025-01-09'' ''In Dev'']
       ''2025-01-06''"
section \<open>Velocity and overrun projection (generate-sprint-report.js)\<close>

record velocity =
  targetVelocity :: rat
  currentVelocity :: rat
  predictedTotal :: int
  velocityUpliftNeeded :: int

definition velocityMetrics :: "rat \<Rightarrow> rat \<Rightarrow> nat \<Rightarrow> nat \<Rightarrow> velocity" where
  \<comment> \<open>\<open>readSprintData\<close>, lines 793 to 813; the two day counts are the loop's counters.\<close>
  "velocityMetrics totalCommitted totalDelivered workingDaysElapsed totalWorkingDays =
     (let tv = (if totalWorkingDays > 0
                then of_int (Math_round ((totalCommitted / of_nat totalWorkingDays) * 10)) / 10
                else 0);
          cv = (if workingDaysElapsed > 0
                then of_int (Math_round ((totalDelivered / of_nat workingDaysElapsed) * 10)) / 10
                else 0);
          remainingDays = int totalWorkingDays - int workingDaysElapsed;
          remainingPoints = totalCommitted - totalDelivered
      in \<lparr> targetVelocity = tv,
           currentVelocity = cv,
           predictedTotal = Math_round (cv * of_nat totalWorkingDays),
           velocityUpliftNeeded =
             (if remainingDays > 0 \<and> cv > 0
              then Math_round (((remainingPoints / of_int remainingDays) / cv - 1) * 100)
              else 0) \<rparr>)"

record projectData =
  totalRemaining :: jsnum
  workingDaysRemaining :: nat
  daysOverrun :: "jsnum option"
  isOverrun :: "bool option"

definition newProjectData :: "jsnum \<Rightarrow> nat \<Rightarrow> projectData" where
  \<comment> \<open>What \<open>readProjectData\<close> returns: the overrun properties are not set (\<open>undefined\<close>);
      the working days are the counter of its loop.\<close>
  "newProjectData remaining days =
     \<lparr> totalRemaining = remaining, workingDaysRemaining = days,
       daysOverrun = None, isOverrun = None \<rparr>"

definition daysNeededAtCurrentVelocity :: "projectData \<Rightarrow> jsnum \<Rightarrow> jsnum" where
  "daysNeededAtCurrentVelocity pd cv = jsDiv (totalRemaining pd) cv"

definition overrunProjection :: "projectData \<Rightarrow> jsnum \<Rightarrow> projectData" where
  \<comment> \<open>\<open>generateReport\<close>, lines 925 to 939; \<open>cv\<close> is \<open>sprintData.currentVelocity\<close>.\<close>
  "overrunProjection pd cv =
     (if jsGt cv (Num 0)
      then (let d = jsRound (jsSub (daysNeededAtCurrentVelocity pd cv)
                               (Num (of_nat (workingDaysRemaining pd))))
            in pd\<lparr> daysOverrun := Some d, isOverrun := Some (jsGt d (Num 0)) \<rparr>)
      else pd)"

datatype overrunLine = Overrun jsnum | Underrun jsnum | OnTrack

definition overrunText :: "projectData \<Rightarrow> overrunLine option" where
  \<comment> \<open>The report page prints one of three lines, and none when \<open>daysOverrun\<close> is not
      set (an unset \<open>isOverrun\<close> is falsy).\<close>
  "overrunText pd =
     (case daysOverrun pd of
        None \<Rightarrow> None
      | Some d \<Rightarrow> Some (if isOverrun pd = Some True then Overrun d
                        else if jsGt (Num 0) d then Underrun (jsAbs d) else OnTrack))"

section \<open>S-curve distribution (generate-sprint-report.js)\<close>

definition smoothT :: "nat \<Rightarrow> nat \<Rightarrow> jsnum" where
  \<comment> \<open>The body of the loop of \<open>generateSCurveProfile\<close> at index \<open>i\<close>.\<close>
  "smoothT days i =
     (let t = jsDiv (Num (of_nat i)) (Num (of_nat days - 1))
      in jsMul (jsMul t t) (jsSub (Num 3) (jsMul (Num 2) t)))"

definition generateSCurveProfile :: "nat \<Rightarrow> jsnum list" where
  "generateSCurveProfile days =
     (let profile = map (smoothT days) [0..<days];
          sum = jsSum profile
      in map (\<lambda>v. jsDiv v sum) profile)"

definition sCurveProfile :: "nat \<Rightarrow> jsnum list option" where
  \<comment> \<open>The table of precomputed profiles, keyed by the number of working days; a
      decimal literal denotes the double nearest to it.\<close>
  "sCurveProfile workingDays =
     (if workingDays = 10
      then Some (map toDouble [5/100, 7/100, 10/100, 12/100, 13/100, 13/100, 12/100, 10/100, 7/100, 5/100])
      else if workingDays = 9
      then Some (map toDouble [5/100, 7/100, 11/100, 13/100, 14/100, 14/100, 13/100, 11/100, 7/100])
      else if workingDays = 8
      then Some (map toDouble [6/100, 8/100, 12/100, 14/100, 14/100, 14/100, 12/100, 8/100])
      else if workingDays = 7
      then Some (map toDouble [7/100, 10/100, 13/100, 15/100, 15/100, 13/100, 10/100])
      else if workingDays = 6
      then Some (map toDouble [8/100, 12/100, 15/100, 15/100, 12/100, 8/100])
      else if workingDays = 5
      then Some (map toDouble [10/100, 15/100, 20/100, 15/100, 10/100])
      else None)"

definition profileFor :: "nat \<Rightarrow> jsnum list" where
  \<comment> \<open>\<open>sCurveProfile[workingDays] || generateSCurveProfile(workingDays)\<close>\<close>
  "profileFor workingDays =
     (case sCurveProfile workingDays of
        Some p \<Rightarrow> p
      | None \<Rightarrow> generateSCurveProfile workingDays)"

definition round2 :: "jsnum \<Rightarrow> jsnum" where
  \<comment> \<open>\<open>Math.round(x * 100) / 100\<close>\<close>
  "round2 x = jsDiv (jsRound (jsMul x (Num 100))) (Num 100)"

definition dailyValues :: "rat \<Rightarrow> nat \<Rightarrow> jsnum list" where
  \<comment> \<open>The array \<open>distribution\<close> before the adjustment; \<open>totalPoints\<close> is a finite
      number.\<close>
  "dailyValues totalPoints workingDays =
     map (\<lambda>percentage. round2 (jsMul (Num totalPoints) percentage)) (profileFor workingDays)"

definition residual :: "rat \<Rightarrow> nat \<Rightarrow> jsnum" where
  \<comment> \<open>The constant \<open>diff\<close>.\<close>
  "residual totalPoints workingDays =
     round2 (jsSub (Num totalPoints) (jsSum (dailyValues totalPoints workingDays)))"

definition distributeSCurve :: "rat \<Rightarrow> nat \<Rightarrow> jsnum list" where
  \<comment> \<open>The array has \<open>workingDays\<close> entries, so the index \<open>workingDays div 2\<close> is past
      the end only for 0 working days; the assignment then appends
      \<open>undefined + diff\<close>, which is \<open>NaN\<close>.\<close>
  "distributeSCurve totalPoints workingDays =
     (let distribution = dailyValues totalPoints workingDays;
          diff = residual totalPoints workingDays;
          k = workingDays div 2
      in if jsGt (jsAbs diff) (toDouble (1 / 100))
         then (if k < length distribution
               then distribution[k := jsAdd (distribution ! k) diff]
               else distribution @ [NaN])
         else distribution)"

section \<open>Properties\<close>

lemma floor_rat_numeral_div [simp]:
  "\<lfloor>numeral a / numeral b :: rat\<rfloor> = numeral a div numeral b"
  by (metis floor_divide_of_int_eq of_int_numeral)

lemma floor_rat_neg_numeral_div [simp]:
  "\<lfloor>- (numeral a / numeral b) :: rat\<rfloor> = - numeral a div numeral b"
  by (metis floor_divide_of_int_eq of_int_numeral of_int_minus minus_divide_left)

lemma Math_round_of_int [simp]: "Math_round (of_int n) = n"
  by (simp add: Math_round_def) linarith

lemma floor_rat_neg_one_div [simp]:
  "\<lfloor>- (1 / numeral b) :: rat\<rfloor> = - 1 div numeral b"
  by (metis floor_divide_of_int_eq of_int_1 of_int_numeral of_int_minus minus_divide_left)

lemma floor_rat_one_div [simp]:
  "\<lfloor>1 / numeral b :: rat\<rfloor> = 1 div numeral b"
  by (metis floor_divide_of_int_eq of_int_1 of_int_numeral)

subsection \<open>Rounding to the nearest double\<close>

text \<open>The exponent brackets the number, \<open>toDouble\<close> is monotone against the powers of
  two, and it is computed from any exponent that brackets its argument.\<close>

lemma two_powi_le_iff: "(2::rat) powi a \<le> 2 powi b \<longleftrightarrow> a \<le> b"
proof
  assume le: "(2::rat) powi a \<le> 2 powi b"
  show "a \<le> b"
  proof (rule ccontr)
    assume "\<not> a \<le> b"
    then have "b < a" by simp
    then have "(2::rat) powi b < 2 powi a" by (rule power_int_strict_increasing) simp
    with le show False by simp
  qed
next
  assume "a \<le> b"
  then show "(2::rat) powi a \<le> 2 powi b" by (rule power_int_increasing) simp
qed

lemma two_powi_less_iff: "(2::rat) powi a < 2 powi b \<longleftrightarrow> a < b"
  using two_powi_le_iff [of b a] by (simp add: not_le [symmetric])

lemma two_powi_split: "(2::rat) powi (a + b) = 2 powi a * 2 powi b"
  by (rule power_int_add) simp

lemma bitlen_floor_bounds:
  fixes a :: rat
  assumes "1 \<le> a"
  shows "2 powi (bitlen \<lfloor>a\<rfloor> - 1) \<le> a \<and> a < 2 powi (bitlen \<lfloor>a\<rfloor>)"
proof -
  let ?n = "\<lfloor>a\<rfloor>"
  have n: "0 < ?n" using assms by linarith
  from bitlen_bounds [OF n]
  have lo: "2 ^ nat (bitlen ?n - 1) \<le> ?n" and hi: "?n < 2 ^ nat (bitlen ?n)" by auto
  have "bitlen ?n \<noteq> 0" using n by (simp add: bitlen_eq_zero_iff)
  then have b: "1 \<le> bitlen ?n" using bitlen_nonneg [of ?n] by linarith
  have "(2::rat) ^ nat (bitlen ?n - 1) = of_int (2 ^ nat (bitlen ?n - 1))" by simp
  also have "\<dots> \<le> of_int ?n" using lo by (simp only: of_int_le_iff)
  also have "\<dots> \<le> a" by simp
  finally have 1: "2 powi (bitlen ?n - 1) \<le> a" using b by (simp add: power_int_def)
  have "?n + 1 \<le> 2 ^ nat (bitlen ?n)" using hi by simp
  then have "(of_int (?n + 1) :: rat) \<le> of_int (2 ^ nat (bitlen ?n))" by (simp only: of_int_le_iff)
  moreover have "a < of_int (?n + 1)" by linarith
  ultimately have "a < 2 ^ nat (bitlen ?n)" by simp
  then have 2: "a < 2 powi (bitlen ?n)" using b by (simp add: power_int_def)
  from 1 2 show ?thesis by simp
qed

lemma expo_bounds:
  assumes "x \<noteq> 0"
  shows "2 powi (expo x) \<le> \<bar>x\<bar> \<and> \<bar>x\<bar> < 2 powi (expo x + 1)"
proof (cases "1 \<le> \<bar>x\<bar>")
  case True
  then show ?thesis using bitlen_floor_bounds [of "\<bar>x\<bar>"] by (simp add: expo_def Let_def)
next
  case False
  define a where "a = \<bar>x\<bar>"
  define k where "k = bitlen \<lfloor>1 / a\<rfloor> - 1"
  have a: "0 < a" "a < 1" using assms False by (auto simp add: a_def)
  then have "1 \<le> 1 / a" by simp
  from bitlen_floor_bounds [OF this]
  have lo: "2 powi k \<le> 1 / a" and hi: "1 / a < 2 powi (k + 1)" by (simp_all add: k_def)
  have p: "0 < (2::rat) powi n" for n by simp
  have "a * 2 powi k \<le> 1" using lo a by (simp add: field_simps)
  then have "a \<le> 1 / 2 powi k" using p [of k] by (simp add: field_simps)
  then have up: "a \<le> 2 powi (- k)" by (simp only: power_int_minus_divide)
  have "1 < a * 2 powi (k + 1)" using hi a by (simp add: field_simps)
  then have "1 / 2 powi (k + 1) < a" using p [of "k + 1"] by (simp add: field_simps)
  then have "2 powi (- (k + 1)) < a" by (simp only: power_int_minus_divide)
  moreover have "- (k + 1) = - k - 1" by simp
  ultimately have low: "2 powi (- k - 1) < a" by (simp only:)
  have ex: "expo x = (if a = 2 powi (- k) then - k else - k - 1)"
    using False by (simp add: expo_def Let_def a_def k_def)
  show ?thesis
  proof (cases "a = 2 powi (- k)")
    case True
    have "(2::rat) powi (- k) < 2 powi (- k + 1)" by (simp only: two_powi_less_iff)
    then show ?thesis using True ex by (simp add: a_def [symmetric])
  next
    case ne: False
    from up ne have "a < 2 powi (- k)" by simp
    then show ?thesis using low ex ne by (simp add: a_def [symmetric])
  qed
qed

lemma roundEven_ge: "of_int n \<le> z \<Longrightarrow> n \<le> roundEven z"
proof -
  assume "of_int n \<le> z"
  then have "n \<le> \<lfloor>z\<rfloor>" by (simp add: le_floor_iff)
  then show ?thesis by (simp add: roundEven_def Let_def)
qed

lemma roundEven_le: "z \<le> of_int n \<Longrightarrow> roundEven z \<le> n"
proof -
  assume z: "z \<le> of_int n"
  have f: "\<lfloor>z\<rfloor> \<le> n" using z by (simp add: floor_le_iff)
  show ?thesis
  proof (cases "z - of_int \<lfloor>z\<rfloor> < 1 / 2")
    case True
    then show ?thesis using f by (simp add: roundEven_def Let_def)
  next
    case False
    then have "of_int \<lfloor>z\<rfloor> < z" by linarith
    then have "of_int \<lfloor>z\<rfloor> < (of_int n :: rat)" using z by linarith
    then have "\<lfloor>z\<rfloor> < n" by (simp only: of_int_less_iff)
    then show ?thesis by (simp add: roundEven_def Let_def)
  qed
qed

lemma toDouble_nonneg:
  assumes "0 \<le> x"
  shows "toDouble x = PosInf \<or> (\<exists>y. toDouble x = Num y \<and> 0 \<le> y)"
proof (cases "x = 0")
  case True
  then show ?thesis by (simp add: toDouble_def)
next
  case False
  let ?q = "(2::rat) powi (max (expo x) (- 1022) - 52)"
  have q: "0 < ?q" by simp
  have "of_int 0 \<le> x / ?q" using assms q by simp
  then have "0 \<le> roundEven (x / ?q)" by (rule roundEven_ge)
  then have "0 \<le> of_int (roundEven (x / ?q)) * ?q" using q by simp
  then show ?thesis using False assms by (auto simp add: toDouble_def Let_def)
qed

lemma toDouble_ge:
  assumes "2 powi k \<le> x" and "- 1022 \<le> k"
  shows "toDouble x = PosInf \<or> (\<exists>y. toDouble x = Num y \<and> 2 powi k \<le> y)"
proof -
  have "0 < (2::rat) powi k" by simp
  then have pos: "0 < x" using assms(1) by linarith
  then have nz: "x \<noteq> 0" by simp
  from expo_bounds [OF nz] pos
  have lo: "2 powi (expo x) \<le> x" and hi: "x < 2 powi (expo x + 1)" by simp_all
  have "(2::rat) powi k < 2 powi (expo x + 1)" using assms(1) hi by simp
  then have "k < expo x + 1" by (simp only: two_powi_less_iff)
  then have ke: "k \<le> expo x" by simp
  then have e: "max (expo x) (- 1022) = expo x" using assms(2) by simp
  let ?q = "(2::rat) powi (expo x - 52)"
  define c where "c = (2::rat) powi 52"
  have c: "c = of_int (2 ^ 52)" by (simp add: c_def power_int_def)
  have q: "0 < ?q" by simp
  have "52 + (expo x - 52) = expo x" by simp
  then have split: "2 powi (expo x) = c * ?q"
    using two_powi_split [of 52 "expo x - 52"] by (simp only: c_def)
  then have "c \<le> x / ?q" using lo q by (simp add: field_simps)
  then have "of_int (2 ^ 52) \<le> x / ?q" by (simp only: c)
  then have "2 ^ 52 \<le> roundEven (x / ?q)" by (rule roundEven_ge)
  then have "(of_int (2 ^ 52) :: rat) \<le> of_int (roundEven (x / ?q))" by (simp only: of_int_le_iff)
  then have "c * ?q \<le> of_int (roundEven (x / ?q)) * ?q"
    using q by (simp only: c mult_le_cancel_right_pos)
  then have "2 powi (expo x) \<le> of_int (roundEven (x / ?q)) * ?q"
    by (simp only: split)
  moreover have "(2::rat) powi k \<le> 2 powi (expo x)" using ke by (simp only: two_powi_le_iff)
  ultimately have "2 powi k \<le> of_int (roundEven (x / ?q)) * ?q" by simp
  then show ?thesis using nz pos e by (auto simp add: toDouble_def Let_def)
qed

lemma toDouble_le:
  assumes "0 \<le> x" and "x \<le> 2 powi k" and "- 1022 \<le> k" and "k < 1024"
  shows "\<exists>y. toDouble x = Num y \<and> 0 \<le> y \<and> y \<le> 2 powi k"
proof (cases "x = 0")
  case True
  then show ?thesis by (simp add: toDouble_def)
next
  case False
  then have pos: "0 < x" using assms(1) by simp
  from expo_bounds [OF False] pos have lo: "2 powi (expo x) \<le> x" by simp
  then have "(2::rat) powi (expo x) \<le> 2 powi k" using assms(2) by simp
  then have "expo x \<le> k" by (simp only: two_powi_le_iff)
  then have ek: "max (expo x) (- 1022) \<le> k" using assms(3) by simp
  let ?e = "max (expo x) (- 1022)"
  let ?q = "(2::rat) powi (?e - 52)"
  let ?y = "of_int (roundEven (x / ?q)) * ?q"
  have q: "0 < ?q" by simp
  have m: "0 \<le> k - ?e + 52" using ek by simp
  have "(k - ?e + 52) + (?e - 52) = k" by simp
  then have pk: "(2::rat) powi k = 2 powi (k - ?e + 52) * ?q"
    using two_powi_split [of "k - ?e + 52" "?e - 52"] by (simp only:)
  have "x / ?q \<le> 2 powi (k - ?e + 52)" using assms(2) q pk by (simp add: field_simps)
  also have "(2::rat) powi (k - ?e + 52) = of_int (2 ^ nat (k - ?e + 52))"
    using m by (simp add: power_int_def)
  finally have "roundEven (x / ?q) \<le> 2 ^ nat (k - ?e + 52)" by (rule roundEven_le)
  then have "(of_int (roundEven (x / ?q)) :: rat) \<le> of_int (2 ^ nat (k - ?e + 52))"
    by (simp only: of_int_le_iff)
  then have "(of_int (roundEven (x / ?q)) :: rat) \<le> 2 powi (k - ?e + 52)"
    using m by (simp add: power_int_def)
  then have "?y \<le> 2 powi (k - ?e + 52) * ?q" using q by simp
  then have yk: "?y \<le> 2 powi k" using pk by simp
  have "of_int 0 \<le> x / ?q" using pos q by simp
  then have "0 \<le> roundEven (x / ?q)" by (rule roundEven_ge)
  then have y0: "0 \<le> ?y" using q by simp
  have "(2::rat) powi k < 2 powi 1024" using assms(4) by (simp only: two_powi_less_iff)
  then have "\<not> 2 powi 1024 \<le> \<bar>?y\<bar>" using yk y0 by simp
  then show ?thesis using False yk y0 by (simp add: toDouble_def Let_def)
qed


lemma toDouble_0 [simp]: "toDouble 0 = Num 0"
  by (simp add: toDouble_def)

lemma expo_unique:
  assumes "2 powi e \<le> \<bar>x\<bar>" and "\<bar>x\<bar> < 2 powi (e + 1)"
  shows "expo x = e"
proof -
  have "(0::rat) < 2 powi e" by simp
  then have "0 < \<bar>x\<bar>" using assms(1) by (rule less_le_trans)
  then have nz: "x \<noteq> 0" by simp
  from expo_bounds [OF nz]
  have lo: "2 powi (expo x) \<le> \<bar>x\<bar>" and hi: "\<bar>x\<bar> < 2 powi (expo x + 1)" by simp_all
  have "(2::rat) powi e < 2 powi (expo x + 1)" using assms(1) hi by simp
  then have 1: "e < expo x + 1" by (simp only: two_powi_less_iff)
  have "(2::rat) powi (expo x) < 2 powi (e + 1)" using lo assms(2) by simp
  then have 2: "expo x < e + 1" by (simp only: two_powi_less_iff)
  from 1 2 show ?thesis by simp
qed

lemma toDouble_eval:
  assumes "2 powi e \<le> \<bar>x\<bar>" and "\<bar>x\<bar> < 2 powi (e + 1)"
    and "- 1022 \<le> e" and "e < 1023"
    and "y = of_int (roundEven (x / 2 powi (e - 52))) * 2 powi (e - 52)"
  shows "toDouble x = Num y"
proof -
  have e: "expo x = e" using expo_unique [OF assms(1,2)] .
  have "(0::rat) < 2 powi e" by simp
  then have "0 < \<bar>x\<bar>" using assms(1) by (rule less_le_trans)
  then have nz: "x \<noteq> 0" by simp
  have "x \<le> 2 powi (e + 1)" "- x \<le> 2 powi (e + 1)" using assms(2) by simp_all
  let ?q = "(2::rat) powi (e - 52)"
  have q: "0 < ?q" by simp
  have c: "(2::rat) powi 53 = of_int (2 ^ 53)" by simp
  have "53 + (e - 52) = e + 1" by simp
  then have "(2::rat) powi (e + 1) = 2 powi 53 * ?q"
    using two_powi_split [of 53 "e - 52"] by (simp only:)
  then have pk: "(2::rat) powi (e + 1) = of_int (2 ^ 53) * ?q" by (simp only: c)
  have "x / ?q \<le> of_int (2 ^ 53)" using assms(2) q pk by (simp add: field_simps abs_less_iff)
  then have up: "roundEven (x / ?q) \<le> 2 ^ 53" by (rule roundEven_le)
  have "of_int (- (2 ^ 53)) \<le> x / ?q" using assms(2) q pk by (simp add: field_simps abs_less_iff)
  then have lo: "- (2 ^ 53) \<le> roundEven (x / ?q)" by (rule roundEven_ge)
  from up lo have "\<bar>roundEven (x / ?q)\<bar> \<le> 2 ^ 53" by simp
  then have "\<bar>(of_int (roundEven (x / ?q)) :: rat)\<bar> \<le> of_int (2 ^ 53)"
    by (metis of_int_abs of_int_le_iff)
  then have "\<bar>of_int (roundEven (x / ?q)) * ?q\<bar> \<le> of_int (2 ^ 53) * ?q"
    using q by (simp add: abs_mult)
  then have "\<bar>y\<bar> \<le> 2 powi (e + 1)" by (simp only: assms(5) pk)
  moreover have "(2::rat) powi (e + 1) < 2 powi 1024" using assms(4) by (simp only: two_powi_less_iff)
  ultimately have "\<not> 2 powi 1024 \<le> \<bar>y\<bar>" by simp
  then show ?thesis using nz e assms(3,5) by (simp add: toDouble_def Let_def)
qed

lemma toDouble_1: "toDouble 1 = Num 1"
  by (rule toDouble_eval [where e = 0]) (simp_all add: roundEven_def Let_def power_int_minus_divide)
lemma toDouble_2: "toDouble 2 = Num 2"
  by (rule toDouble_eval [where e = 1]) (simp_all add: roundEven_def Let_def power_int_minus_divide)
lemma toDouble_3: "toDouble 3 = Num 3"
  by (rule toDouble_eval [where e = 1]) (simp_all add: roundEven_def Let_def power_int_minus_divide)

subsection \<open>The generated profile\<close>

lemma Math_round_zero [simp]: "Math_round 0 = 0"
  by (simp add: Math_round_def)

lemma unit_interval:
  assumes "0 \<le> x" and "x \<le> 1"
  shows "\<exists>y. toDouble x = Num y \<and> 0 \<le> y \<and> y \<le> 1"
  using toDouble_le [of x 0] assms by simp

lemma smoothT_nonneg:
  assumes "2 \<le> days" and "i < days"
  shows "\<exists>y. smoothT days i = Num y \<and> 0 \<le> y"
proof -
  have d: "(0::rat) < of_nat days - 1" using assms(1) by simp
  have "(of_nat i :: rat) \<le> of_nat days - 1"
    using assms(2) by (metis Suc_leI le_diff_conv2 of_nat_1 of_nat_diff of_nat_le_iff
      One_nat_def Suc_eq_plus1 add_leE assms(1) numeral_2_eq_2 order_refl)
  then have "0 \<le> (of_nat i :: rat) / (of_nat days - 1)" "(of_nat i :: rat) / (of_nat days - 1) \<le> 1"
    using d by simp_all
  from unit_interval [OF this] obtain t
    where t: "toDouble (of_nat i / (of_nat days - 1)) = Num t" "0 \<le> t" "t \<le> 1" by blast
  have "0 \<le> t * t" "t * t \<le> 1" using t(2,3) by (simp_all add: mult_le_one)
  from unit_interval [OF this] obtain tt
    where tt: "toDouble (t * t) = Num tt" "0 \<le> tt" "tt \<le> 1" by blast
  have "0 \<le> 2 * t" "2 * t \<le> 2 powi 1" using t(2,3) by simp_all
  from toDouble_le [OF this] obtain u
    where u: "toDouble (2 * t) = Num u" "0 \<le> u" "u \<le> 2" by auto
  have w1: "2 powi 0 \<le> 3 + - u" and w2: "0 \<le> 3 + - u" and w4: "3 + - u \<le> 2 powi 2"
    using u(2,3) by simp_all
  from toDouble_le [OF w2 w4] obtain w
    where w: "toDouble (3 + - u) = Num w" "0 \<le> w" "w \<le> 4" by auto
  have "0 \<le> tt * w" using tt(2) w(2) by simp
  moreover have "tt * w \<le> 1 * 4" using tt(2,3) w(2,3) by (intro mult_mono) simp_all
  ultimately have "0 \<le> tt * w" "tt * w \<le> 2 powi 2" by simp_all
  from toDouble_le [OF this] obtain y
    where y: "toDouble (tt * w) = Num y" "0 \<le> y" by auto
  have "smoothT days i = Num y"
    using d t(1) tt(1) u(1) w(1) y(1) by (simp add: smoothT_def Let_def jsSub_def)
  then show ?thesis using y(2) by blast
qed

lemma smoothT_first: "2 \<le> days \<Longrightarrow> smoothT days 0 = Num 0"
  by (simp add: smoothT_def Let_def jsSub_def toDouble_3)

lemma smoothT_last:
  assumes "2 \<le> days"
  shows "smoothT days (days - 1) = Num 1"
proof -
  have d: "(of_nat days :: rat) - 1 \<noteq> 0" using assms by simp
  have "(of_nat (days - 1) :: rat) = of_nat days - 1" using assms by (simp add: of_nat_diff)
  then have "jsDiv (Num (of_nat (days - 1))) (Num (of_nat days - 1)) = Num 1"
    using d by (simp add: toDouble_1)
  then show ?thesis
    by (simp add: smoothT_def Let_def jsSub_def toDouble_1 toDouble_2)
qed

lemma jsAdd_nonneg:
  assumes "nonnegOrInf x" and "0 \<le> y"
  shows "nonnegOrInf (jsAdd x (Num y))"
proof (cases x)
  case (Num a)
  then have "0 \<le> a + y" using assms by (simp add: nonnegOrInf_def)
  from toDouble_nonneg [OF this] show ?thesis using Num by (auto simp add: nonnegOrInf_def)
qed (use assms in \<open>simp_all add: nonnegOrInf_def\<close>)

lemma foldl_nonneg:
  "nonnegOrInf acc \<Longrightarrow> list_all (\<lambda>x. \<exists>y. x = Num y \<and> 0 \<le> y) xs
   \<Longrightarrow> nonnegOrInf (foldl jsAdd acc xs)"
proof (induction xs arbitrary: acc)
  case Nil
  then show ?case by simp
next
  case (Cons x xs)
  then obtain y where "x = Num y" "0 \<le> y" by auto
  then show ?case using Cons jsAdd_nonneg [of acc y] by simp
qed

lemma profile_sum:
  assumes "2 \<le> days"
  shows "jsSum (map (smoothT days) [0..<days]) = PosInf
         \<or> (\<exists>s. jsSum (map (smoothT days) [0..<days]) = Num s \<and> 1 \<le> s)"
proof -
  have split: "[0..<days] = [0..<days - 1] @ [days - 1]"
    using assms by (metis Suc_diff_1 less_le_trans upt_Suc_append zero_less_numeral zero_le
        less_eq_nat.simps(1) pos2)
  let ?A = "foldl jsAdd (Num 0) (map (smoothT days) [0..<days - 1])"
  have "list_all (\<lambda>x. \<exists>y. x = Num y \<and> 0 \<le> y) (map (smoothT days) [0..<days - 1])"
    using smoothT_nonneg [OF assms] by (simp add: list_all_iff)
  then have A: "nonnegOrInf ?A" by (intro foldl_nonneg) (simp_all add: nonnegOrInf_def)
  have S: "jsSum (map (smoothT days) [0..<days]) = jsAdd ?A (Num 1)"
    using smoothT_last [OF assms] by (subst split) (simp add: jsSum_def)
  show ?thesis
  proof (cases ?A)
    case (Num a)
    then have "0 \<le> a" using A by (simp add: nonnegOrInf_def)
    then have "2 powi 0 \<le> a + 1" by simp
    from toDouble_ge [OF this] show ?thesis using S Num by auto
  next
    case PosInf
    then show ?thesis using S by simp
  next
    case NegInf
    then show ?thesis using A by (simp add: nonnegOrInf_def)
  next
    case NaN
    then show ?thesis using A by (simp add: nonnegOrInf_def)
  qed
qed

lemma generateSCurveProfile_first:
  assumes "2 \<le> days"
  shows "generateSCurveProfile days ! 0 = Num 0"
proof -
  have "generateSCurveProfile days ! 0
        = jsDiv (smoothT days 0) (jsSum (map (smoothT days) [0..<days]))"
    using assms by (simp add: generateSCurveProfile_def Let_def)
  then show ?thesis using profile_sum [OF assms] smoothT_first [OF assms] by auto
qed

lemma length_generateSCurveProfile [simp]: "length (generateSCurveProfile days) = days"
  by (simp add: generateSCurveProfile_def Let_def)

lemma length_profileFor [simp]: "length (profileFor days) = days"
  by (simp add: profileFor_def sCurveProfile_def)

lemma length_dailyValues [simp]: "length (dailyValues tp days) = days"
  by (simp add: dailyValues_def)

lemma distributeSCurve_one_day: "distributeSCurve tp 1 = [NaN]"
  by (simp add: distributeSCurve_def dailyValues_def residual_def profileFor_def
      sCurveProfile_def generateSCurveProfile_def smoothT_def round2_def
      jsSum_def jsSub_def jsInf_def Let_def)

subsection \<open>The doubles of the examples\<close>

text \<open>The value of \<open>toDouble\<close> at each number that the evaluations below meet, from the
  exponent that brackets it.\<close>

lemma toDouble_value_1: "toDouble (- (5 / 2)) = Num (- (5 / 2))"
  by (rule toDouble_eval [where e = "1"])
     (simp_all add: roundEven_def Let_def power_int_minus_divide)

lemma toDouble_value_2: "toDouble (- (562949953421313 / 1125899906842624)) = Num (- (562949953421313 / 1125899906842624))"
  by (rule toDouble_eval [where e = "- 1"])
     (simp_all add: roundEven_def Let_def power_int_minus_divide)

lemma toDouble_value_3: "toDouble (1 / 100) = Num (5764607523034235 / 576460752303423488)"
  by (rule toDouble_eval [where e = "- 7"])
     (simp_all add: roundEven_def Let_def power_int_minus_divide)

lemma toDouble_value_4: "toDouble (1 / 20) = Num (3602879701896397 / 72057594037927936)"
  by (rule toDouble_eval [where e = "- 5"])
     (simp_all add: roundEven_def Let_def power_int_minus_divide)

lemma toDouble_value_5: "toDouble (7 / 100) = Num (1261007895663739 / 18014398509481984)"
  by (rule toDouble_eval [where e = "- 4"])
     (simp_all add: roundEven_def Let_def power_int_minus_divide)

lemma toDouble_value_6: "toDouble (1 / 10) = Num (3602879701896397 / 36028797018963968)"
  by (rule toDouble_eval [where e = "- 4"])
     (simp_all add: roundEven_def Let_def power_int_minus_divide)

lemma toDouble_value_7: "toDouble (3602879701896397 / 36028797018963968) = Num (3602879701896397 / 36028797018963968)"
  by (rule toDouble_eval [where e = "- 4"])
     (simp_all add: roundEven_def Let_def power_int_minus_divide)

lemma toDouble_value_8: "toDouble (3 / 25) = Num (1080863910568919 / 9007199254740992)"
  by (rule toDouble_eval [where e = "- 4"])
     (simp_all add: roundEven_def Let_def power_int_minus_divide)

lemma toDouble_value_9: "toDouble (13 / 100) = Num (1170935903116329 / 9007199254740992)"
  by (rule toDouble_eval [where e = "- 3"])
     (simp_all add: roundEven_def Let_def power_int_minus_divide)

lemma toDouble_value_10: "toDouble (1 / 5) = Num (3602879701896397 / 18014398509481984)"
  by (rule toDouble_eval [where e = "- 3"])
     (simp_all add: roundEven_def Let_def power_int_minus_divide)

lemma toDouble_value_11: "toDouble (3602879701896397 / 18014398509481984) = Num (3602879701896397 / 18014398509481984)"
  by (rule toDouble_eval [where e = "- 3"])
     (simp_all add: roundEven_def Let_def power_int_minus_divide)

lemma toDouble_value_12: "toDouble (5404319552844595 / 18014398509481984) = Num (5404319552844595 / 18014398509481984)"
  by (rule toDouble_eval [where e = "- 2"])
     (simp_all add: roundEven_def Let_def power_int_minus_divide)

lemma toDouble_value_13: "toDouble (3 / 10) = Num (5404319552844595 / 18014398509481984)"
  by (rule toDouble_eval [where e = "- 2"])
     (simp_all add: roundEven_def Let_def power_int_minus_divide)

lemma toDouble_value_14: "toDouble (10808639105689191 / 36028797018963968) = Num (1351079888211149 / 4503599627370496)"
  by (rule toDouble_eval [where e = "- 2"])
     (simp_all add: roundEven_def Let_def power_int_minus_divide)

lemma toDouble_value_15: "toDouble (1 / 2) = Num (1 / 2)"
  by (rule toDouble_eval [where e = "- 1"])
     (simp_all add: roundEven_def Let_def power_int_minus_divide)

lemma toDouble_value_16: "toDouble (3 / 5) = Num (5404319552844595 / 9007199254740992)"
  by (rule toDouble_eval [where e = "- 1"])
     (simp_all add: roundEven_def Let_def power_int_minus_divide)

lemma toDouble_value_17: "toDouble (21617278211378381 / 36028797018963968) = Num (5404319552844595 / 9007199254740992)"
  by (rule toDouble_eval [where e = "- 1"])
     (simp_all add: roundEven_def Let_def power_int_minus_divide)

lemma toDouble_value_18: "toDouble (10808639105689191 / 18014398509481984) = Num (1351079888211149 / 2251799813685248)"
  by (rule toDouble_eval [where e = "- 1"])
     (simp_all add: roundEven_def Let_def power_int_minus_divide)

lemma toDouble_value_19: "toDouble (1351079888211149 / 2251799813685248) = Num (1351079888211149 / 2251799813685248)"
  by (rule toDouble_eval [where e = "- 1"])
     (simp_all add: roundEven_def Let_def power_int_minus_divide)

lemma toDouble_value_20: "toDouble (3 / 4) = Num (3 / 4)"
  by (rule toDouble_eval [where e = "- 1"])
     (simp_all add: roundEven_def Let_def power_int_minus_divide)

lemma toDouble_value_21: "toDouble (54043195528445955 / 72057594037927936) = Num (3 / 4)"
  by (rule toDouble_eval [where e = "- 1"])
     (simp_all add: roundEven_def Let_def power_int_minus_divide)

lemma toDouble_value_22: "toDouble (126663739519795 / 140737488355328) = Num (126663739519795 / 140737488355328)"
  by (rule toDouble_eval [where e = "- 1"])
     (simp_all add: roundEven_def Let_def power_int_minus_divide)

lemma toDouble_value_23: "toDouble (9 / 10) = Num (8106479329266893 / 9007199254740992)"
  by (rule toDouble_eval [where e = "- 1"])
     (simp_all add: roundEven_def Let_def power_int_minus_divide)

lemma toDouble_value_24: "toDouble (21 / 20) = Num (4728779608739021 / 4503599627370496)"
  by (rule toDouble_eval [where e = "0"])
     (simp_all add: roundEven_def Let_def power_int_minus_divide)

lemma toDouble_value_25: "toDouble (18915118434956085 / 18014398509481984) = Num (4728779608739021 / 4503599627370496)"
  by (rule toDouble_eval [where e = "0"])
     (simp_all add: roundEven_def Let_def power_int_minus_divide)

lemma toDouble_value_26: "toDouble (3 / 2) = Num (3 / 2)"
  by (rule toDouble_eval [where e = "0"])
     (simp_all add: roundEven_def Let_def power_int_minus_divide)

lemma toDouble_value_27: "toDouble (54043195528445955 / 36028797018963968) = Num (3 / 2)"
  by (rule toDouble_eval [where e = "0"])
     (simp_all add: roundEven_def Let_def power_int_minus_divide)

lemma toDouble_value_28: "toDouble (16212958658533785 / 9007199254740992) = Num (2026619832316723 / 1125899906842624)"
  by (rule toDouble_eval [where e = "0"])
     (simp_all add: roundEven_def Let_def power_int_minus_divide)

lemma toDouble_value_29: "toDouble (9 / 5) = Num (8106479329266893 / 4503599627370496)"
  by (rule toDouble_eval [where e = "0"])
     (simp_all add: roundEven_def Let_def power_int_minus_divide)

lemma toDouble_value_30: "toDouble (8106479329266893 / 4503599627370496) = Num (8106479329266893 / 4503599627370496)"
  by (rule toDouble_eval [where e = "0"])
     (simp_all add: roundEven_def Let_def power_int_minus_divide)

lemma toDouble_value_31: "toDouble (39 / 20) = Num (8782019273372467 / 4503599627370496)"
  by (rule toDouble_eval [where e = "0"])
     (simp_all add: roundEven_def Let_def power_int_minus_divide)

lemma toDouble_value_32: "toDouble (17564038546744935 / 9007199254740992) = Num (2195504818343117 / 1125899906842624)"
  by (rule toDouble_eval [where e = "0"])
     (simp_all add: roundEven_def Let_def power_int_minus_divide)

lemma toDouble_value_33: "toDouble (2) = Num (2)"
  by (rule toDouble_eval [where e = "1"])
     (simp_all add: roundEven_def Let_def power_int_minus_divide)

lemma toDouble_value_34: "toDouble (5 / 2) = Num (5 / 2)"
  by (rule toDouble_eval [where e = "1"])
     (simp_all add: roundEven_def Let_def power_int_minus_divide)

lemma toDouble_value_35: "toDouble (25670517876011827 / 9007199254740992) = Num (6417629469002957 / 2251799813685248)"
  by (rule toDouble_eval [where e = "1"])
     (simp_all add: roundEven_def Let_def power_int_minus_divide)

lemma toDouble_value_36: "toDouble (57 / 20) = Num (6417629469002957 / 2251799813685248)"
  by (rule toDouble_eval [where e = "1"])
     (simp_all add: roundEven_def Let_def power_int_minus_divide)

lemma toDouble_value_37: "toDouble (14861878770322637 / 4503599627370496) = Num (3715469692580659 / 1125899906842624)"
  by (rule toDouble_eval [where e = "1"])
     (simp_all add: roundEven_def Let_def power_int_minus_divide)

lemma toDouble_value_38: "toDouble (22 / 5) = Num (2476979795053773 / 562949953421312)"
  by (rule toDouble_eval [where e = "2"])
     (simp_all add: roundEven_def Let_def power_int_minus_divide)

lemma toDouble_value_39: "toDouble (5) = Num (5)"
  by (rule toDouble_eval [where e = "2"])
     (simp_all add: roundEven_def Let_def power_int_minus_divide)

lemma toDouble_value_40: "toDouble (90071992547409925 / 18014398509481984) = Num (5)"
  by (rule toDouble_eval [where e = "2"])
     (simp_all add: roundEven_def Let_def power_int_minus_divide)

lemma toDouble_value_41: "toDouble (22968358099589529 / 4503599627370496) = Num (2871044762448691 / 562949953421312)"
  by (rule toDouble_eval [where e = "2"])
     (simp_all add: roundEven_def Let_def power_int_minus_divide)

lemma toDouble_value_42: "toDouble (6) = Num (6)"
  by (rule toDouble_eval [where e = "2"])
     (simp_all add: roundEven_def Let_def power_int_minus_divide)

lemma toDouble_value_43: "toDouble (7) = Num (7)"
  by (rule toDouble_eval [where e = "2"])
     (simp_all add: roundEven_def Let_def power_int_minus_divide)

lemma toDouble_value_44: "toDouble (31525197391593475 / 4503599627370496) = Num (7881299347898369 / 1125899906842624)"
  by (rule toDouble_eval [where e = "2"])
     (simp_all add: roundEven_def Let_def power_int_minus_divide)

lemma toDouble_value_45: "toDouble (31750377372961995 / 4503599627370496) = Num (7937594343240499 / 1125899906842624)"
  by (rule toDouble_eval [where e = "2"])
     (simp_all add: roundEven_def Let_def power_int_minus_divide)

lemma toDouble_value_46: "toDouble (6192449487634432 / 825659931684591) = Num (8444249301319679 / 1125899906842624)"
  by (rule toDouble_eval [where e = "2"])
     (simp_all add: roundEven_def Let_def power_int_minus_divide)

lemma toDouble_value_47: "toDouble (40532396646334463 / 4503599627370496) = Num (9)"
  by (rule toDouble_eval [where e = "3"])
     (simp_all add: roundEven_def Let_def power_int_minus_divide)

lemma toDouble_value_48: "toDouble (22292818155483955 / 2251799813685248) = Num (5573204538870989 / 562949953421312)"
  by (rule toDouble_eval [where e = "3"])
     (simp_all add: roundEven_def Let_def power_int_minus_divide)

lemma toDouble_value_49: "toDouble (10) = Num (10)"
  by (rule toDouble_eval [where e = "3"])
     (simp_all add: roundEven_def Let_def power_int_minus_divide)

lemma toDouble_value_50: "toDouble (90071992547409925 / 9007199254740992) = Num (10)"
  by (rule toDouble_eval [where e = "3"])
     (simp_all add: roundEven_def Let_def power_int_minus_divide)

lemma toDouble_value_51: "toDouble (48638875975601357 / 4503599627370496) = Num (3039929748475085 / 281474976710656)"
  by (rule toDouble_eval [where e = "3"])
     (simp_all add: roundEven_def Let_def power_int_minus_divide)

lemma toDouble_value_52: "toDouble (52692115640234805 / 4503599627370496) = Num (6586514455029351 / 562949953421312)"
  by (rule toDouble_eval [where e = "3"])
     (simp_all add: roundEven_def Let_def power_int_minus_divide)

lemma toDouble_value_53: "toDouble (27021597764222975 / 2251799813685248) = Num (12)"
  by (rule toDouble_eval [where e = "3"])
     (simp_all add: roundEven_def Let_def power_int_minus_divide)

lemma toDouble_value_54: "toDouble (12) = Num (12)"
  by (rule toDouble_eval [where e = "3"])
     (simp_all add: roundEven_def Let_def power_int_minus_divide)

lemma toDouble_value_55: "toDouble (3462142213541069 / 281474976710656) = Num (3462142213541069 / 281474976710656)"
  by (rule toDouble_eval [where e = "3"])
     (simp_all add: roundEven_def Let_def power_int_minus_divide)

lemma toDouble_value_56: "toDouble (13) = Num (13)"
  by (rule toDouble_eval [where e = "3"])
     (simp_all add: roundEven_def Let_def power_int_minus_divide)

lemma toDouble_value_57: "toDouble (29273397577908225 / 2251799813685248) = Num (13)"
  by (rule toDouble_eval [where e = "3"])
     (simp_all add: roundEven_def Let_def power_int_minus_divide)

lemma toDouble_value_58: "toDouble (7430939385161319 / 562949953421312) = Num (7430939385161319 / 562949953421312)"
  by (rule toDouble_eval [where e = "3"])
     (simp_all add: roundEven_def Let_def power_int_minus_divide)

lemma toDouble_value_59: "toDouble (60123055025396125 / 4503599627370496) = Num (1878845469543629 / 140737488355328)"
  by (rule toDouble_eval [where e = "3"])
     (simp_all add: roundEven_def Let_def power_int_minus_divide)

lemma toDouble_value_60: "toDouble (1984398585810125 / 140737488355328) = Num (1984398585810125 / 140737488355328)"
  by (rule toDouble_eval [where e = "3"])
     (simp_all add: roundEven_def Let_def power_int_minus_divide)

lemma toDouble_value_61: "toDouble (64176294690029573 / 4503599627370496) = Num (8022036836253697 / 562949953421312)"
  by (rule toDouble_eval [where e = "3"])
     (simp_all add: roundEven_def Let_def power_int_minus_divide)

lemma toDouble_value_62: "toDouble (8444249301319681 / 562949953421312) = Num (8444249301319681 / 562949953421312)"
  by (rule toDouble_eval [where e = "3"])
     (simp_all add: roundEven_def Let_def power_int_minus_divide)

lemma toDouble_value_63: "toDouble (19) = Num (19)"
  by (rule toDouble_eval [where e = "4"])
     (simp_all add: roundEven_def Let_def power_int_minus_divide)

lemma toDouble_value_64: "toDouble (22) = Num (22)"
  by (rule toDouble_eval [where e = "4"])
     (simp_all add: roundEven_def Let_def power_int_minus_divide)

lemma toDouble_value_65: "toDouble (34) = Num (34)"
  by (rule toDouble_eval [where e = "5"])
     (simp_all add: roundEven_def Let_def power_int_minus_divide)

lemma toDouble_value_66: "toDouble (47) = Num (47)"
  by (rule toDouble_eval [where e = "5"])
     (simp_all add: roundEven_def Let_def power_int_minus_divide)

lemma toDouble_value_67: "toDouble (60) = Num (60)"
  by (rule toDouble_eval [where e = "5"])
     (simp_all add: roundEven_def Let_def power_int_minus_divide)

lemma toDouble_value_68: "toDouble (66) = Num (66)"
  by (rule toDouble_eval [where e = "6"])
     (simp_all add: roundEven_def Let_def power_int_minus_divide)

lemma toDouble_value_69: "toDouble (72) = Num (72)"
  by (rule toDouble_eval [where e = "6"])
     (simp_all add: roundEven_def Let_def power_int_minus_divide)

lemma toDouble_value_70: "toDouble (75) = Num (75)"
  by (rule toDouble_eval [where e = "6"])
     (simp_all add: roundEven_def Let_def power_int_minus_divide)

lemma toDouble_value_71: "toDouble (78) = Num (78)"
  by (rule toDouble_eval [where e = "6"])
     (simp_all add: roundEven_def Let_def power_int_minus_divide)

lemma toDouble_value_72: "toDouble (82) = Num (82)"
  by (rule toDouble_eval [where e = "6"])
     (simp_all add: roundEven_def Let_def power_int_minus_divide)

lemma toDouble_value_73: "toDouble (88) = Num (88)"
  by (rule toDouble_eval [where e = "6"])
     (simp_all add: roundEven_def Let_def power_int_minus_divide)

lemma toDouble_value_74: "toDouble (89) = Num (89)"
  by (rule toDouble_eval [where e = "6"])
     (simp_all add: roundEven_def Let_def power_int_minus_divide)

lemma toDouble_value_75: "toDouble (3166593487994875 / 35184372088832) = Num (3166593487994875 / 35184372088832)"
  by (rule toDouble_eval [where e = "6"])
     (simp_all add: roundEven_def Let_def power_int_minus_divide)

lemma toDouble_value_76: "toDouble (94) = Num (94)"
  by (rule toDouble_eval [where e = "6"])
     (simp_all add: roundEven_def Let_def power_int_minus_divide)

lemma toDouble_value_77: "toDouble (95) = Num (95)"
  by (rule toDouble_eval [where e = "6"])
     (simp_all add: roundEven_def Let_def power_int_minus_divide)

lemma toDouble_value_78: "toDouble (100) = Num (100)"
  by (rule toDouble_eval [where e = "6"])
     (simp_all add: roundEven_def Let_def power_int_minus_divide)

lemma toDouble_value_79: "toDouble (118219490218475525 / 1125899906842624) = Num (105)"
  by (rule toDouble_eval [where e = "6"])
     (simp_all add: roundEven_def Let_def power_int_minus_divide)

lemma toDouble_value_80: "toDouble (150) = Num (150)"
  by (rule toDouble_eval [where e = "7"])
     (simp_all add: roundEven_def Let_def power_int_minus_divide)

lemma toDouble_value_81: "toDouble (50665495807918075 / 281474976710656) = Num (6333186975989759 / 35184372088832)"
  by (rule toDouble_eval [where e = "7"])
     (simp_all add: roundEven_def Let_def power_int_minus_divide)

lemma toDouble_value_82: "toDouble (54887620458577925 / 281474976710656) = Num (6860952557322241 / 35184372088832)"
  by (rule toDouble_eval [where e = "7"])
     (simp_all add: roundEven_def Let_def power_int_minus_divide)

lemma toDouble_value_83: "toDouble (500) = Num (500)"
  by (rule toDouble_eval [where e = "8"])
     (simp_all add: roundEven_def Let_def power_int_minus_divide)

lemma toDouble_value_84: "toDouble (600) = Num (600)"
  by (rule toDouble_eval [where e = "9"])
     (simp_all add: roundEven_def Let_def power_int_minus_divide)

lemma toDouble_value_85: "toDouble (197032483697459225 / 281474976710656) = Num (6157265115545601 / 8796093022208)"
  by (rule toDouble_eval [where e = "9"])
     (simp_all add: roundEven_def Let_def power_int_minus_divide)

lemma toDouble_value_86: "toDouble (1000) = Num (1000)"
  by (rule toDouble_eval [where e = "9"])
     (simp_all add: roundEven_def Let_def power_int_minus_divide)

lemma toDouble_value_87: "toDouble (1200) = Num (1200)"
  by (rule toDouble_eval [where e = "10"])
     (simp_all add: roundEven_def Let_def power_int_minus_divide)

lemma toDouble_value_88: "toDouble (1300) = Num (1300)"
  by (rule toDouble_eval [where e = "10"])
     (simp_all add: roundEven_def Let_def power_int_minus_divide)

lemmas toDouble_values =
  toDouble_value_1 toDouble_value_2 toDouble_value_3 toDouble_value_4
  toDouble_value_5 toDouble_value_6 toDouble_value_7 toDouble_value_8
  toDouble_value_9 toDouble_value_10 toDouble_value_11 toDouble_value_12
  toDouble_value_13 toDouble_value_14 toDouble_value_15 toDouble_value_16
  toDouble_value_17 toDouble_value_18 toDouble_value_19 toDouble_value_20
  toDouble_value_21 toDouble_value_22 toDouble_value_23 toDouble_value_24
  toDouble_value_25 toDouble_value_26 toDouble_value_27 toDouble_value_28
  toDouble_value_29 toDouble_value_30 toDouble_value_31 toDouble_value_32
  toDouble_value_33 toDouble_value_34 toDouble_value_35 toDouble_value_36
  toDouble_value_37 toDouble_value_38 toDouble_value_39 toDouble_value_40
  toDouble_value_41 toDouble_value_42 toDouble_value_43 toDouble_value_44
  toDouble_value_45 toDouble_value_46 toDouble_value_47 toDouble_value_48
  toDouble_value_49 toDouble_value_50 toDouble_value_51 toDouble_value_52
  toDouble_value_53 toDouble_value_54 toDouble_value_55 toDouble_value_56
  toDouble_value_57 toDouble_value_58 toDouble_value_59 toDouble_value_60
  toDouble_value_61 toDouble_value_62 toDouble_value_63 toDouble_value_64
  toDouble_value_65 toDouble_value_66 toDouble_value_67 toDouble_value_68
  toDouble_value_69 toDouble_value_70 toDouble_value_71 toDouble_value_72
  toDouble_value_73 toDouble_value_74 toDouble_value_75 toDouble_value_76
  toDouble_value_77 toDouble_value_78 toDouble_value_79 toDouble_value_80
  toDouble_value_81 toDouble_value_82 toDouble_value_83 toDouble_value_84
  toDouble_value_85 toDouble_value_86 toDouble_value_87 toDouble_value_88

subsection \<open>Velocity and overrun\<close>

text \<open>
  C7 (as the code has it). With a current velocity above 0 the projection sets
  \<open>daysOverrun = Math.round(totalRemaining / currentVelocity - workingDaysRemaining)\<close>,
  the quotient and the difference each rounded to a double, and \<open>isOverrun\<close> holds
  exactly when that is positive (behind schedule); a negative value is printed as an
  underrun. With a current velocity that is not above 0 nothing is set: the overrun stays
  undefined, is not 0, and the report page prints no overrun line at all. For 50
  remaining points, velocity 5 and 8 working days left: 10 days needed, overrun 2. For 33
  remaining points, velocity 4.4 and 8 days left the quotient is the double below 7.5
  and the overrun is - 1.
\<close>

theorem overrun_projection:
  "(jsGt cv (Num 0) \<longrightarrow>
      daysOverrun (overrunProjection pd cv) =
        Some (jsRound (jsSub (jsDiv (totalRemaining pd) cv) (Num (of_nat (workingDaysRemaining pd)))))
      \<and> isOverrun (overrunProjection pd cv) =
        Some (jsGt (jsRound (jsSub (jsDiv (totalRemaining pd) cv)
                              (Num (of_nat (workingDaysRemaining pd))))) (Num 0)))
   \<and> (\<not> jsGt cv (Num 0) \<longrightarrow>
      overrunProjection (newProjectData r w) cv = newProjectData r w
      \<and> daysOverrun (overrunProjection (newProjectData r w) cv) = None
      \<and> daysOverrun (overrunProjection (newProjectData r w) cv) \<noteq> Some (Num 0)
      \<and> overrunText (overrunProjection (newProjectData r w) cv) = None)
   \<and> daysNeededAtCurrentVelocity (newProjectData (Num 50) 8) (Num 5) = Num 10
   \<and> daysOverrun (overrunProjection (newProjectData (Num 50) 8) (Num 5)) = Some (Num 2)
   \<and> overrunText (overrunProjection (newProjectData (Num 50) 8) (Num 5)) = Some (Overrun (Num 2))
   \<and> daysNeededAtCurrentVelocity (newProjectData (Num 33) 8) (jsDiv (Num 44) (Num 10))
       = Num (15 / 2 - 1 / 2 ^ 50)
   \<and> daysOverrun (overrunProjection (newProjectData (Num 33) 8) (jsDiv (Num 44) (Num 10)))
       = Some (Num (- 1))
   \<and> overrunText (overrunProjection (newProjectData (Num 33) 8) (jsDiv (Num 44) (Num 10)))
       = Some (Underrun (Num 1))"
  by (simp add: overrunProjection_def newProjectData_def daysNeededAtCurrentVelocity_def
      overrunText_def jsSub_def Let_def Math_round_def toDouble_values)

theorem overrun_projection_witness:
  "jsGt (Num 4) (Num 0) \<and> \<not> jsGt (Num 0) (Num 0)
   \<and> daysOverrun (overrunProjection (newProjectData (Num 10) 5) (Num 4)) = Some (Num (- 2))
   \<and> isOverrun (overrunProjection (newProjectData (Num 10) 5) (Num 4)) = Some False
   \<and> overrunText (overrunProjection (newProjectData (Num 50) 8) (Num 0)) = None"
  using overrun_projection [of "Num 4" "newProjectData (Num 10) 5" "Num 0" 0]
    overrun_projection [of "Num 0" "newProjectData (Num 10) 5" "Num 50" 8]
  by (simp add: newProjectData_def overrunText_def jsSub_def Math_round_def toDouble_values)

text \<open>
  With velocity 0 the projection is not reported as unknown: the overrun is left unset and
  the page has no overrun line.
\<close>

theorem overrun_unknown_counterexample:
  "daysOverrun (overrunProjection (newProjectData (Num 50) 8) (Num 0)) = None
   \<and> overrunText (overrunProjection (newProjectData (Num 50) 8) (Num 0)) = None"
  by (simp add: overrunProjection_def newProjectData_def overrunText_def)

lemma Math_round_near: "\<bar>of_int (Math_round x) - x\<bar> \<le> 1 / 2"
  unfolding Math_round_def by linarith

lemma round_tenth_near: "\<bar>of_int (Math_round (x * 10)) / 10 - x\<bar> \<le> 1 / 20"
  using Math_round_near [of "x * 10"] by (simp add: field_simps abs_le_iff)

text \<open>
  C6 (as the code has it). The target velocity is \<open>totalCommitted / totalWorkingDays\<close>
  rounded to one decimal, and 0 for a sprint without working days; the current velocity
  is \<open>totalDelivered / workingDaysElapsed\<close> rounded to one decimal, and 0 when no
  working day has elapsed; the predicted total is that rounded current velocity times
  \<open>totalWorkingDays\<close>, rounded to the nearest whole point. For 100 committed, 10 working
  days, 5 elapsed and 40 delivered: 10, 8 and 80.
\<close>

theorem velocity_metrics:
  "(0 < D \<longrightarrow>
      targetVelocity (velocityMetrics C Del E D) = of_int (Math_round (C / of_nat D * 10)) / 10
      \<and> \<bar>targetVelocity (velocityMetrics C Del E D) - C / of_nat D\<bar> \<le> 1 / 20)
   \<and> (D = 0 \<longrightarrow> targetVelocity (velocityMetrics C Del E D) = 0)
   \<and> (0 < E \<longrightarrow>
      currentVelocity (velocityMetrics C Del E D) = of_int (Math_round (Del / of_nat E * 10)) / 10
      \<and> \<bar>currentVelocity (velocityMetrics C Del E D) - Del / of_nat E\<bar> \<le> 1 / 20)
   \<and> (E = 0 \<longrightarrow> currentVelocity (velocityMetrics C Del E D) = 0)
   \<and> predictedTotal (velocityMetrics C Del E D)
       = Math_round (currentVelocity (velocityMetrics C Del E D) * of_nat D)
   \<and> targetVelocity (velocityMetrics 100 40 5 10) = 10
   \<and> currentVelocity (velocityMetrics 100 40 5 10) = 8
   \<and> predictedTotal (velocityMetrics 100 40 5 10) = 80"
  using round_tenth_near [of "C / of_nat D"] round_tenth_near [of "Del / of_nat E"]
  by (simp add: velocityMetrics_def Let_def Math_round_def)

theorem velocity_metrics_witness:
  "(0::nat) < 3 \<and> (0::nat) < 20
   \<and> targetVelocity (velocityMetrics 100 1 20 3) = 333 / 10
   \<and> currentVelocity (velocityMetrics 100 1 20 3) = 1 / 10
   \<and> predictedTotal (velocityMetrics 100 1 20 3) = 0
   \<and> targetVelocity (velocityMetrics 100 1 0 0) = 0
   \<and> currentVelocity (velocityMetrics 100 1 0 0) = 0"
  using velocity_metrics [of 3 100 1 20] velocity_metrics [of 0 100 1 0]
  by (simp add: velocityMetrics_def Let_def Math_round_def)

text \<open>
  The unrounded quotients of the specification are not what the code stores: 100 points
  over 3 working days give the target velocity 33.3, and 1 point delivered in 20 of 20
  working days gives the current velocity 0.1 and the predicted total 2, where the
  velocity 1/20 would predict 1.
\<close>

theorem velocity_unrounded_counterexample:
  "targetVelocity (velocityMetrics 100 1 20 3) \<noteq> 100 / of_nat 3
   \<and> currentVelocity (velocityMetrics 100 1 20 20) \<noteq> 1 / of_nat 20
   \<and> predictedTotal (velocityMetrics 100 1 20 20) = 2
   \<and> Math_round (1 / of_nat 20 * of_nat 20) = 1"
  by (simp add: velocityMetrics_def Let_def Math_round_def)

subsection \<open>S-curve distribution\<close>








text \<open>
  C10. For every number of working days \<open>N \<ge> 2\<close> outside the precomputed set
  5 to 10, the generated profile gives the first day the share 0, and the first day's
  target of the distribution is 0 for every total. For \<open>N = 1\<close> the generator
  computes \<open>0 / 0\<close>: the profile and the distribution are the single value \<open>NaN\<close>.
\<close>

theorem generated_profile_first_day:
  assumes "2 \<le> N" and "N \<notin> {5, 6, 7, 8, 9, 10}"
  shows "profileFor N = generateSCurveProfile N
         \<and> generateSCurveProfile N ! 0 = Num 0
         \<and> distributeSCurve tp N ! 0 = Num 0
         \<and> jsDiv (Num (of_nat 0)) (Num (of_nat 1 - 1)) = NaN
         \<and> generateSCurveProfile 1 = [NaN]
         \<and> distributeSCurve tp 1 = [NaN]"
proof -
  have none: "sCurveProfile N = None" using assms(2) by (simp add: sCurveProfile_def)
  then have pf: "profileFor N = generateSCurveProfile N" by (simp add: profileFor_def)
  have g0: "generateSCurveProfile N ! 0 = Num 0"
    using generateSCurveProfile_first [OF assms(1)] .
  have d0: "dailyValues tp N ! 0 = Num 0"
    using assms(1) g0 by (simp add: dailyValues_def pf round2_def Math_round_def)
  have "0 < N div 2" using assms(1) by simp
  then have dist0: "distributeSCurve tp N ! 0 = Num 0"
    using assms(1) d0 by (simp add: distributeSCurve_def Let_def)
  have "jsDiv (Num (of_nat 0)) (Num (of_nat 1 - 1)) = NaN" by (simp add: jsInf_def)
  moreover have "generateSCurveProfile 1 = [NaN]"
    by (simp add: generateSCurveProfile_def smoothT_def jsSum_def jsSub_def jsInf_def Let_def)
  ultimately show ?thesis using pf g0 dist0 distributeSCurve_one_day by blast
qed

theorem generated_profile_first_day_witness:
  "(2::nat) \<le> 3 \<and> (3::nat) \<notin> {5, 6, 7, 8, 9, 10}
   \<and> generateSCurveProfile 3 ! 0 = Num 0
   \<and> distributeSCurve 7 3 ! 0 = Num 0"
  using generated_profile_first_day [of 3 7] by simp

subsection \<open>Status history\<close>

lemma find_skip:
  "\<forall>x\<in>set xs. \<not> P x \<Longrightarrow> P y \<Longrightarrow> List.find P (xs @ y # ys) = Some y"
  by (induction xs) auto

lemma analyzeSprintAddition_first:
  assumes "\<forall>a\<in>set as. \<not> list_ex (sprintItemMatches fid name) (h_items a)"
    and "list_ex (sprintItemMatches fid name) (h_items h)"
  shows "analyzeSprintAddition (Some (as @ h # bs)) fid name createdDate = h_created h"
  using assms by (simp add: analyzeSprintAddition_def find_skip)

lemma getStatusChangeDate_first:
  assumes "\<forall>a\<in>set as. \<not> (inDateRange parseDate startDate endDate a
                    \<and> list_ex (statusItemMatches targets) (h_items a))"
    and "inDateRange parseDate startDate endDate h"
    and "list_ex (statusItemMatches targets) (h_items h)"
  shows "getStatusChangeDate parseDate (Some (as @ h # bs)) targets startDate endDate
         = Some (datePart (h_created h))"
proof -
  have "List.find (\<lambda>h. inDateRange parseDate startDate endDate h
                    \<and> list_ex (statusItemMatches targets) (h_items h)) (as @ h # bs) = Some h"
    using assms by (intro find_skip) simp_all
  then show ?thesis by (simp add: getStatusChangeDate_def)
qed

lemma getCompletionDate_last:
  assumes "\<forall>b\<in>set bs. \<not> list_ex completionItemMatches (h_items b)"
    and "list_ex completionItemMatches (h_items h)"
  shows "getCompletionDate (issue\<lparr>si_changelog := Some (as @ h # bs)\<rparr>)
         = Some (datePart (h_created h))"
proof -
  have "List.find (\<lambda>h. list_ex completionItemMatches (h_items h)) (rev bs @ h # rev as) = Some h"
    using assms by (intro find_skip) simp_all
  then show ?thesis by (simp add: getCompletionDate_def)
qed

text \<open>
  C1. The example history is in chronological order and has a transition into a target
  status at T1 = 2025-01-10 and one at T2 = 2025-01-14, both within January 2025.
  \<open>getStatusChangeDate\<close>, the resolver with the date range, whose comment announces the
  most recent transition first, scans from the first entry on and returns T1, not T2;
  only on the same history given newest first does it return T2. \<open>getCompletionDate\<close>
  scans from the last entry down and has no date constraint: it returns T2 on the
  chronological history, T1 on the reversed one, and the date of a later close, outside
  January, when the history has one. \<open>analyzeSprintAddition\<close> scans from the first
  entry on and returns the timestamp of the first entry that adds the sprint.
\<close>

theorem resolver_scan_order:
  "getStatusChangeDate (\<lambda>s. Some (digitsValue s)) (Some exHistories) COMPLETED_STATUSES
       ''2025-01-01'' ''2025-01-31'' = Some ''2025-01-10''
   \<and> getStatusChangeDate (\<lambda>s. Some (digitsValue s)) (Some (rev exHistories)) COMPLETED_STATUSES
       ''2025-01-01'' ''2025-01-31'' = Some ''2025-01-14''
   \<and> getCompletionDate exIssue = Some ''2025-01-14''
   \<and> getCompletionDate (exIssue\<lparr>si_changelog := Some (rev exHistories)\<rparr>) = Some ''2025-01-10''
   \<and> getStatusChangeDate (\<lambda>s. Some (digitsValue s)) (Some exHistoriesLate) COMPLETED_STATUSES
       ''2025-01-01'' ''2025-01-31'' = Some ''2025-01-10''
   \<and> getCompletionDate (exIssue\<lparr>si_changelog := Some exHistoriesLate\<rparr>) = Some ''2025-02-03''
   \<and> analyzeSprintAddition (Some exSprintHistories) ''customfield_10020'' ''NH Sprint 30''
       ''2025-01-02T08:00:00'' = ''2025-01-03T10:00:00''
   \<and> analyzeSprintAddition (Some (rev exSprintHistories)) ''customfield_10020'' ''NH Sprint 30''
       ''2025-01-02T08:00:00'' = ''2025-01-09T12:00:00''"
proof -
  have 1: "getStatusChangeDate (\<lambda>s. Some (digitsValue s)) (Some exHistories) COMPLETED_STATUSES
       ''2025-01-01'' ''2025-01-31'' = Some ''2025-01-10''"
    by code_simp
  have 2: "getStatusChangeDate (\<lambda>s. Some (digitsValue s)) (Some (rev exHistories))
       COMPLETED_STATUSES ''2025-01-01'' ''2025-01-31'' = Some ''2025-01-14''"
    by code_simp
  have 3: "getCompletionDate exIssue = Some ''2025-01-14''"
    by code_simp
  have 4: "getCompletionDate (exIssue\<lparr>si_changelog := Some (rev exHistories)\<rparr>)
       = Some ''2025-01-10''"
    by code_simp
  have 5: "getStatusChangeDate (\<lambda>s. Some (digitsValue s)) (Some exHistoriesLate)
       COMPLETED_STATUSES ''2025-01-01'' ''2025-01-31'' = Some ''2025-01-10''"
    by code_simp
  have 6: "getCompletionDate (exIssue\<lparr>si_changelog := Some exHistoriesLate\<rparr>)
       = Some ''2025-02-03''"
    by code_simp
  have 7: "analyzeSprintAddition (Some exSprintHistories) ''customfield_10020'' ''NH Sprint 30''
       ''2025-01-02T08:00:00'' = ''2025-01-03T10:00:00''"
    by code_simp
  have 8: "analyzeSprintAddition (Some (rev exSprintHistories)) ''customfield_10020''
       ''NH Sprint 30'' ''2025-01-02T08:00:00'' = ''2025-01-09T12:00:00''"
    by code_simp
  show ?thesis by (intro conjI) (rule 1 2 3 4 5 6 7 8)+
qed

subsection \<open>Fetch loops and point normalisation\<close>

lemma fetched_Nil [simp]: "fetched get [] = []"
  by (simp add: fetched_def List.map_filter_simps)


lemma failedKeys_Nil [simp]: "failedKeys get [] = []"
  by (simp add: failedKeys_def)









lemma allocation_defaulted_step:
  "allocationStep (\<lambda>k. Inr (exFields ''Story'' ''In Dev'' None)) m key
   = allocationStep (\<lambda>k. Inr (exFields ''Story'' ''In Dev'' (Some 2))) m key"
  by (simp add: allocationStep_def allocationPoints_def exFields_def numOr_def strOr_def Let_def)

text \<open>
  C4 (as the code has it). A positive stored value is returned unchanged and is not
  marked as defaulted, in every script. A missing or zero value of a story or a bug
  becomes 2; the dev-review and the completed-points scripts mark it as defaulted, the
  allocation script returns the 2 with no mark. For the other types a missing or zero
  value stays 0 and unmarked in the dev-review script and, for an epic, in the allocation
  script, which skips all further types; the completed-points script asks for stories and
  bugs only.
\<close>

theorem point_normaliser:
  "(f_storyPoints (i_fields issue) = Some v \<and> 0 < v \<longrightarrow>
       d_storyPoints (devReviewIssue issue) = v \<and> \<not> d_defaulted (devReviewIssue issue)
       \<and> completedPointsOf (f_storyPoints (i_fields issue)) = (v, False)
       \<and> (f_issuetypeName (i_fields issue) \<in> {Some ''Epic'', Some ''Story'', Some ''Bug''}
            \<longrightarrow> allocationPoints (i_fields issue) = Some v))
   \<and> ((f_storyPoints (i_fields issue) = None \<or> f_storyPoints (i_fields issue) = Some 0)
        \<and> f_issuetypeName (i_fields issue) \<in> {Some ''Story'', Some ''Bug''} \<longrightarrow>
       d_storyPoints (devReviewIssue issue) = 2 \<and> d_defaulted (devReviewIssue issue)
       \<and> completedPointsOf (f_storyPoints (i_fields issue)) = (2, True)
       \<and> allocationPoints (i_fields issue) = Some 2)
   \<and> ((f_storyPoints (i_fields issue) = None \<or> f_storyPoints (i_fields issue) = Some 0)
        \<and> f_issuetypeName (i_fields issue) \<notin> {Some ''Story'', Some ''Bug''} \<longrightarrow>
       d_storyPoints (devReviewIssue issue) = 0 \<and> \<not> d_defaulted (devReviewIssue issue)
       \<and> (f_issuetypeName (i_fields issue) = Some ''Epic''
            \<longrightarrow> allocationPoints (i_fields issue) = Some 0))"
  by (auto simp add: devReviewIssue_def allocationPoints_def completedPointsOf_def
      numOr_def strOr_def Let_def split: option.splits)

theorem point_normaliser_witness:
  "d_storyPoints (devReviewIssue (exIssueOf (exFields ''Story'' ''In Dev'' (Some 5)))) = 5
   \<and> \<not> d_defaulted (devReviewIssue (exIssueOf (exFields ''Story'' ''In Dev'' (Some 5))))
   \<and> completedPointsOf (Some 5) = (5, False)
   \<and> d_storyPoints (devReviewIssue (exIssueOf (exFields ''Bug'' ''In Dev'' (Some 0)))) = 2
   \<and> d_defaulted (devReviewIssue (exIssueOf (exFields ''Bug'' ''In Dev'' (Some 0))))
   \<and> completedPointsOf (Some 0) = (2, True)
   \<and> d_storyPoints (devReviewIssue (exIssueOf (exFields ''Epic'' ''In Dev'' None))) = 0
   \<and> \<not> d_defaulted (devReviewIssue (exIssueOf (exFields ''Epic'' ''In Dev'' None)))
   \<and> allocationPoints (exFields ''Epic'' ''In Dev'' None) = Some 0"
  using point_normaliser [of "exIssueOf (exFields ''Story'' ''In Dev'' (Some 5))" 5]
    point_normaliser [of "exIssueOf (exFields ''Bug'' ''In Dev'' (Some 0))" 0]
    point_normaliser [of "exIssueOf (exFields ''Epic'' ''In Dev'' None)" 0]
  by (simp add: exIssueOf_def exFields_def)

text \<open>
  The allocation script marks nothing: a story without points and a story that has 2
  points stored give the same points and the same allocation, so the default cannot be
  told from a stored value there.
\<close>

theorem point_normaliser_counterexample:
  "allocationPoints (exFields ''Story'' ''In Dev'' None) = Some 2
   \<and> allocationPoints (exFields ''Story'' ''In Dev'' None)
       = allocationPoints (exFields ''Story'' ''In Dev'' (Some 2))
   \<and> fetchSprintAllocation (Inr [''VER10-9'']) (\<lambda>k. Inr (exFields ''Story'' ''In Dev'' None))
       = fetchSprintAllocation (Inr [''VER10-9'']) (\<lambda>k. Inr (exFields ''Story'' ''In Dev'' (Some 2)))
   \<and> map (as_totalPoints \<circ> ar_stats)
         (fetchSprintAllocation (Inr [''VER10-9'']) (\<lambda>k. Inr (exFields ''Story'' ''In Dev'' None)))
       = [2]"
proof -
  have 1: "allocationPoints (exFields ''Story'' ''In Dev'' None) = Some 2"
    by (simp add: allocationPoints_def exFields_def numOr_def strOr_def)
  have 2: "allocationPoints (exFields ''Story'' ''In Dev'' None)
       = allocationPoints (exFields ''Story'' ''In Dev'' (Some 2))"
    by (simp add: allocationPoints_def exFields_def numOr_def strOr_def)
  have 3: "fetchSprintAllocation (Inr [''VER10-9'']) (\<lambda>k. Inr (exFields ''Story'' ''In Dev'' None))
       = fetchSprintAllocation (Inr [''VER10-9'']) (\<lambda>k. Inr (exFields ''Story'' ''In Dev'' (Some 2)))"
    by (simp add: fetchSprintAllocation_def allocation_defaulted_step)
  have 4: "map (as_totalPoints \<circ> ar_stats)
         (fetchSprintAllocation (Inr [''VER10-9'']) (\<lambda>k. Inr (exFields ''Story'' ''In Dev'' None)))
       = [2]"
    by code_simp
  show ?thesis by (intro conjI) (rule 1 2 3 4)+
qed

subsection \<open>Aggregation\<close>

lemma example_dates:
  "digitsValue ''2025-01-03'' = 20250103" "digitsValue ''2025-01-06'' = 20250106"
  "digitsValue ''2025-01-08'' = 20250108" "digitsValue ''2025-01-09'' = 20250109"
  "digitsValue ''3'' = 3" "digitsValue ''5'' = 5"
  by code_simp+

lemma exScope_eval:
  "exScope =
     \<lparr> initialScope = [exScopeIssue], initialPoints = Num 5,
       addedScope = [], addedPoints = Num 0,
       storyPointIncreases =
         [\<lparr> pi_issue = ''VER10-7'', pi_summary = ''Example'', pi_date = ''2025-01-08'',
            pi_from = 3, pi_to = 5, pi_increase = Num 2, pi_author = ''Amy'' \<rparr>],
       increasedPoints = Num 2, totalCurrentPoints = Num 7,
       completedIssues = [], completedPoints = Num 0,
       remainingIssues = [exScopeIssue], remainingPoints = Num 5 \<rparr>"
  by (simp add: exScope_def calculateScopeChanges_def increasesOf_def pointsOf_def isDone_def
      exScopeIssue_def dateLe_def numOr_def jsSub_def Let_def example_dates toDouble_values)

lemma exFractions_eval:
  "initialPoints exFractions = Num (1351079888211149 / 4503599627370496)"
  "addedPoints exFractions = toDouble (3 / 10)"
  "completedPoints exFractions = toDouble (1 / 10)"
  "remainingPoints exFractions = Num (1 / 2)"
  "increasedPoints exFractions = Num 0"
  "totalCurrentPoints exFractions = Num (1351079888211149 / 2251799813685248)"
  by (simp_all add: exFractions_def calculateScopeChanges_def increasesOf_def pointsOf_def
      isDone_def exFraction_def dateLe_def Let_def example_dates toDouble_values)

text \<open>
  C2. In the scope analysis the total scope is the points of the initial scope plus those
  of the added scope plus the story point increases. The points of an issue are its
  current points, which contain every increase already: for a sprint of one story of the
  initial scope that was raised from 3 to 5 points after the start, the initial scope has
  5 points, nothing was added, the completed and remaining issues have 0 and 5 points,
  and the total scope is 7, the increase of 2 counted twice. The sums are sums of
  doubles: for three issues of 0.1, 0.2 and 0.3 points the initial and the added scope
  add up to more than the completed and the remaining issues do, though each pair of
  buckets holds the same three issues.
\<close>

theorem scope_total_counts_increase_twice:
  "pointsOf [exScopeIssue] = Num 5
   \<and> initialPoints exScope = Num 5 \<and> addedPoints exScope = Num 0
   \<and> increasedPoints exScope = Num 2
   \<and> completedPoints exScope = Num 0 \<and> remainingPoints exScope = Num 5
   \<and> totalCurrentPoints exScope = Num 7
   \<and> totalCurrentPoints exScope \<noteq> pointsOf [exScopeIssue]
   \<and> jsAdd (initialPoints exFractions) (addedPoints exFractions)
       = Num (1351079888211149 / 2251799813685248)
   \<and> jsAdd (completedPoints exFractions) (remainingPoints exFractions) = toDouble (6 / 10)
   \<and> jsAdd (initialPoints exFractions) (addedPoints exFractions)
       \<noteq> jsAdd (completedPoints exFractions) (remainingPoints exFractions)"
proof -
  have p: "pointsOf [exScopeIssue] = Num 5"
    by (simp add: pointsOf_def exScopeIssue_def toDouble_values)
  have a: "jsAdd (initialPoints exFractions) (addedPoints exFractions)
       = Num (1351079888211149 / 2251799813685248)"
    by (simp add: exFractions_eval toDouble_values)
  have b: "jsAdd (completedPoints exFractions) (remainingPoints exFractions) = toDouble (6 / 10)"
    by (simp add: exFractions_eval toDouble_values)
  have c: "jsAdd (initialPoints exFractions) (addedPoints exFractions)
       \<noteq> jsAdd (completedPoints exFractions) (remainingPoints exFractions)"
    unfolding a b by (simp add: toDouble_values)
  have d: "totalCurrentPoints exScope \<noteq> pointsOf [exScopeIssue]"
    unfolding p by (simp add: exScope_eval)
  have e: "initialPoints exScope = Num 5" "addedPoints exScope = Num 0"
    "increasedPoints exScope = Num 2" "completedPoints exScope = Num 0"
    "remainingPoints exScope = Num 5" "totalCurrentPoints exScope = Num 7"
    by (simp_all add: exScope_eval)
  show ?thesis by (intro conjI) (rule p e a b c d)+
qed

lemma sortDescBy_sorted: "sorted_wrt (\<lambda>a b. p a \<ge> p b) (sortDescBy p xs)"
proof -
  have "sorted (map (\<lambda>x. - p x) (sortDescBy p xs))" by (simp add: sortDescBy_def)
  then show ?thesis by (simp add: sorted_map)
qed

lemma sortDescBy_stable: "filter (\<lambda>x. p x = v) (sortDescBy p xs) = filter (\<lambda>x. p x = v) xs"
  using sort_key_stable [of "\<lambda>x. - p x" "- v" xs] by (simp add: sortDescBy_def)

lemma objectValues_plain:
  "list_all (\<lambda>p. arrayIndex (fst p) = None) m \<Longrightarrow> objectValues m = map snd m"
  by (simp add: objectValues_def list_all_iff filter_empty_conv filter_id_conv)

text \<open>
  C9 (as the code has it). The assignee buckets of the dev-review report, the rows of
  \<open>fetchSprintAllocation\<close> and the rows of the allocation report are ordered by
  descending point total. The sort is stable and compares the totals only: buckets with
  equal totals keep the order in which they stood before the sort, which is the order in
  which \<open>Object.values\<close> enumerates the dictionary (first appearance, for keys that are
  not array indices), or the order of first appearance of the account in the sprints.
\<close>

theorem bucket_order:
  "sorted_wrt (\<lambda>a b. g_totalPoints a \<ge> g_totalPoints b) (groupByAssignee issues)
   \<and> filter (\<lambda>a. g_totalPoints a = v) (groupByAssignee issues)
     = filter (\<lambda>a. g_totalPoints a = v) (objectValues (foldl groupStep [] issues))
   \<and> sorted_wrt (\<lambda>a b. as_totalPoints (ar_stats a) \<ge> as_totalPoints (ar_stats b))
       (fetchSprintAllocation (Inr ks) get)
   \<and> filter (\<lambda>a. as_totalPoints (ar_stats a) = v) (fetchSprintAllocation (Inr ks) get)
     = filter (\<lambda>a. as_totalPoints (ar_stats a) = v)
         (map allocationRow (objectValues (foldl (allocationStep get) [] ks)))
   \<and> sorted_wrt (\<lambda>a b. ss_totalPoints (rr_totals a) \<ge> ss_totalPoints (rr_totals b))
       (reportData sprintData)
   \<and> filter (\<lambda>a. ss_totalPoints (rr_totals a) = v) (reportData sprintData)
     = filter (\<lambda>a. ss_totalPoints (rr_totals a) = v)
         (map (reportRowOf sprintData) (allAssignees sprintData))"
proof -
  let ?as = "map allocationRow (objectValues (foldl (allocationStep get) [] ks))"
  let ?rs = "map (reportRowOf sprintData) (allAssignees sprintData)"
  have 1: "sorted_wrt (\<lambda>a b. g_totalPoints a \<ge> g_totalPoints b) (groupByAssignee issues)"
    unfolding groupByAssignee_def by (rule sortDescBy_sorted)
  have 2: "filter (\<lambda>a. g_totalPoints a = v) (groupByAssignee issues)
     = filter (\<lambda>a. g_totalPoints a = v) (objectValues (foldl groupStep [] issues))"
    unfolding groupByAssignee_def by (rule sortDescBy_stable)
  have 3: "sorted_wrt (\<lambda>a b. as_totalPoints (ar_stats a) \<ge> as_totalPoints (ar_stats b))
       (fetchSprintAllocation (Inr ks) get)"
    using sortDescBy_sorted [of "as_totalPoints \<circ> ar_stats" ?as]
    by (simp add: fetchSprintAllocation_def)
  have 4: "filter (\<lambda>a. as_totalPoints (ar_stats a) = v) (fetchSprintAllocation (Inr ks) get)
     = filter (\<lambda>a. as_totalPoints (ar_stats a) = v) ?as"
    using sortDescBy_stable [of "as_totalPoints \<circ> ar_stats" v ?as]
    by (simp add: fetchSprintAllocation_def)
  have 5: "sorted_wrt (\<lambda>a b. ss_totalPoints (rr_totals a) \<ge> ss_totalPoints (rr_totals b))
       (reportData sprintData)"
    using sortDescBy_sorted [of "ss_totalPoints \<circ> rr_totals" ?rs]
    by (simp add: reportData_def)
  have 6: "filter (\<lambda>a. ss_totalPoints (rr_totals a) = v) (reportData sprintData)
     = filter (\<lambda>a. ss_totalPoints (rr_totals a) = v) ?rs"
    using sortDescBy_stable [of "ss_totalPoints \<circ> rr_totals" v ?rs]
    by (simp add: reportData_def)
  from 1 2 3 4 5 6 show ?thesis by blast
qed

text \<open>
  With three assignees, Zed and Amy at 3 points each and Bob at 5, the buckets come out
  as Bob, Zed, Amy: the tie keeps the order of first appearance, against the lexical
  order of the keys.
\<close>

theorem bucket_order_counterexample:
  "map g_name (groupByAssignee
      [exDev ''VER10-1'' ''Zed'' 3, exDev ''VER10-2'' ''Amy'' 3, exDev ''VER10-3'' ''Bob'' 5])
     = [''Bob'', ''Zed'', ''Amy'']
   \<and> strLe ''Amy'' ''Zed'' \<and> \<not> strLe ''Zed'' ''Amy''"
  by code_simp

lemma daily_empty:
  "map dp_percentComplete (dailyLoop [] start 0 0 dates) = map (\<lambda>d. ''NaN'') dates"
  by (induction dates) (simp_all add: completedOn_def toFixed1_def jsInf_def Let_def)

text \<open>
  C8 at the failing input. For a sprint without issues the total is 0, and every day of
  the daily progress reports the percentage \<open>0 / 0 * 100\<close> formatted with one decimal,
  which is the string NaN; the guarded percentage of the allocation script is 0 there.
\<close>

theorem daily_progress_nan:
  "map dp_percentComplete (calculateDailyProgress [] [''2025-01-06''] ''2025-01-06'') = [''NaN'']
   \<and> map dp_totalSprint (calculateDailyProgress [] [''2025-01-06''] ''2025-01-06'') = [0]
   \<and> map dp_percentComplete (calculateDailyProgress [] dates start) = map (\<lambda>d. ''NaN'') dates
   \<and> percentOf 0 0 = 0"
  using daily_empty [of start dates] daily_empty [of "''2025-01-06''" "[''2025-01-06'']"]
  by (simp add: calculateDailyProgress_def percentOf_def completedOn_def Let_def)

end
